theory Spec2Isabelle
  imports Complex_Main "HOL-Library.Word"
begin

section \<open>Values crossing the JavaScript boundary\<close>

text \<open>
  The addon \<^verbatim>\<open>src/inverter_wrapper.cc\<close> is a class \<^verbatim>\<open>InverterWrapper\<close> whose methods
  receive JavaScript arguments, call the YASDI library and return JavaScript values.

  A \<^verbatim>\<open>DWORD\<close> is a 32-bit word. A C \<^verbatim>\<open>double\<close> is a finite number, an infinity or NaN;
  the wrapper only stores, compares and passes doubles on, so the finite ones are
  embedded in the reals, whose order is the order of finite doubles. A \<^verbatim>\<open>std::string\<close>
  and the text held by a \<^verbatim>\<open>char\<close> buffer are byte strings.

  \<open>JsString t\<close> is the JavaScript string with the UTF-8 bytes \<open>t\<close>. For a text that is
  valid UTF-8, as every ASCII text is, \<^verbatim>\<open>Napi::String::New\<close> makes this string of the
  bytes and \<^verbatim>\<open>Utf8Value\<close> gives the bytes back. Bytes that are not valid UTF-8 are
  replaced by U+FFFD when a JavaScript string is made; this replacement is not part of
  the model, so a name that the library delivers with such bytes appears here with
  its bytes. The statements below that show a JavaScript string of a name are about
  the C++ side (the device map, the channel data) or about ASCII names.
\<close>

type_synonym dword = "32 word"

datatype double = Finite real | PosInf | NegInf | NaN

text \<open>The comparison \<^verbatim>\<open>a < b\<close> of two doubles: false as soon as one side is NaN.\<close>

fun dless :: "double \<Rightarrow> double \<Rightarrow> bool" where
  "dless (Finite a) (Finite b) = (a < b)"
| "dless (Finite a) PosInf = True"
| "dless NegInf (Finite b) = True"
| "dless NegInf PosInf = True"
| "dless _ _ = False"

datatype js_value =
    JsUndefined
  | JsNull
  | JsBoolean bool
  | JsNumber double
  | JsString string
  | JsArray "js_value list"
  | JsObject "(string \<times> js_value) list"

text \<open>
  A JavaScript exception thrown by a method. The addon is built with
  \<^verbatim>\<open>NAPI_DISABLE_CPP_EXCEPTIONS\<close>: \<^verbatim>\<open>ThrowAsJavaScriptException\<close> marks the exception as
  pending and the method returns at once, so the caller sees the exception and not the
  returned value.
\<close>

datatype js_exception = TypeError string | Error string

type_synonym js_result = "js_exception + js_value"

text \<open>
  \<^verbatim>\<open>obj.Set(key, v)\<close>: a property that exists is overwritten, a new one is added. The
  properties are kept in the order in which they were added; \<open>map_of\<close> reads one.
  JavaScript itself lists the properties whose names are array indices before the
  others; the list here does not show that order, and no statement depends on it but
  for objects whose property names are not indices.
\<close>

fun obj_set :: "string \<Rightarrow> js_value \<Rightarrow> (string \<times> js_value) list \<Rightarrow> (string \<times> js_value) list" where
  "obj_set key v [] = [(key, v)]"
| "obj_set key v ((key', v') # ps) =
     (if key = key' then (key, v) # ps else (key', v') # obj_set key v ps)"

text \<open>
  \<^verbatim>\<open>Napi::Number::Int32Value\<close> (Node-API): a non-finite number gives 0, any other number
  is truncated towards zero and reduced to its low 32 bits. The wrapper stores the
  result in a \<^verbatim>\<open>DWORD\<close> or an \<^verbatim>\<open>int\<close>, which read the same 32 bits.
\<close>

fun Int32Value :: "double \<Rightarrow> dword" where
  "Int32Value (Finite r) = word_of_int (if 0 \<le> r then \<lfloor>r\<rfloor> else \<lceil>r\<rceil>)"
| "Int32Value _ = 0"

text \<open>
  The tests and conversions of \<^verbatim>\<open>Napi::Value\<close>. The wrapper converts an argument only
  after the matching test.
\<close>

fun IsNumber :: "js_value \<Rightarrow> bool" where
  "IsNumber (JsNumber d) = True"
| "IsNumber _ = False"

fun IsString :: "js_value \<Rightarrow> bool" where
  "IsString (JsString t) = True"
| "IsString _ = False"

fun DoubleValue :: "js_value \<Rightarrow> double" where
  "DoubleValue (JsNumber d) = d"
| "DoubleValue _ = NaN"

fun Utf8Value :: "js_value \<Rightarrow> string" where
  "Utf8Value (JsString t) = t"
| "Utf8Value _ = []"

text \<open>\<^verbatim>\<open>std::string::c_str\<close> as a C function reads it: the bytes before the first NUL.\<close>

definition c_str :: "string \<Rightarrow> string" where
  "c_str t = takeWhile (\<lambda>c. c \<noteq> CHR 0x00) t"

text \<open>\<^verbatim>\<open>Napi::Number::New\<close> of a \<^verbatim>\<open>DWORD\<close> and of an \<^verbatim>\<open>int\<close>.\<close>

definition number_of_dword :: "dword \<Rightarrow> js_value" where
  "number_of_dword h = JsNumber (Finite (real (unat h)))"

definition number_of_int :: "int \<Rightarrow> js_value" where
  "number_of_int i = JsNumber (Finite (real_of_int i))"

section \<open>The YASDI library\<close>

text \<open>
  The library is not part of the repository: its status codes and its functions are
  parameters of the model. A function of the library reads and changes the state
  \<open>'w\<close> of the library and of the bus behind it.

  An enumeration (\<^verbatim>\<open>yasdiMasterGetDriver\<close>, \<^verbatim>\<open>GetDeviceHandles\<close>, \<^verbatim>\<open>GetChannelHandlesEx\<close>)
  is given the capacity of the array and returns the handles it stored there; its C
  return value is their number.

  An out-parameter that the wrapper reads only after the status \<^verbatim>\<open>YE_OK\<close> (a channel
  name, a channel value, a value range) is part of the result. An out-parameter that
  the wrapper reads whatever the status (the driver count, a driver name, a device name,
  a channel unit) is passed in with its content before the call and returned with its
  content after it. \<open>uninit\<close> is the content of a \<^verbatim>\<open>char\<close> buffer that the wrapper
  declares without initialising it. The text of a buffer is the C string it holds; every
  text buffer of the wrapper has 64 bytes, and the library is told to store at most 63
  characters.

  The library's function \<^verbatim>\<open>SetChannelValue\<close> is \<open>yasdi_SetChannelValue\<close> here: the
  wrapper has a method of the same name, which calls it as \<^verbatim>\<open>::SetChannelValue\<close>.
\<close>

datatype TChanType = SPOTCHANNELS | ALLCHANNELS

record 'w yasdi =
  YE_OK :: int
  YE_DEV_DETECT_IN_PROGRESS :: int
  YE_NOT_ALL_DEVS_FOUND :: int
  INVALID_HANDLE :: int
  YE_SHUTDOWN :: int
  YE_TIMEOUT :: int
  YE_VALUE_NOT_VALID :: int
  YE_NO_ACCESS_RIGHTS :: int
  uninit :: string
  yasdiMasterInitialize :: "string \<Rightarrow> dword \<Rightarrow> 'w \<Rightarrow> (int \<times> dword) \<times> 'w"
  yasdiMasterGetDriver :: "nat \<Rightarrow> 'w \<Rightarrow> dword list \<times> 'w"
  yasdiGetDriverName :: "dword \<Rightarrow> string \<Rightarrow> 'w \<Rightarrow> (bool \<times> string) \<times> 'w"
  yasdiSetDriverOnline :: "dword \<Rightarrow> 'w \<Rightarrow> bool \<times> 'w"
  yasdiSetDriverOffline :: "dword \<Rightarrow> 'w \<Rightarrow> unit \<times> 'w"
  yasdiMasterShutdown :: "'w \<Rightarrow> unit \<times> 'w"
  DoStartDeviceDetection :: "int \<Rightarrow> bool \<Rightarrow> 'w \<Rightarrow> int \<times> 'w"
  GetDeviceHandles :: "nat \<Rightarrow> 'w \<Rightarrow> dword list \<times> 'w"
  GetDeviceName :: "dword \<Rightarrow> string \<Rightarrow> 'w \<Rightarrow> (int \<times> string) \<times> 'w"
  GetChannelHandlesEx :: "dword \<Rightarrow> nat \<Rightarrow> TChanType \<Rightarrow> 'w \<Rightarrow> dword list \<times> 'w"
  GetChannelName :: "dword \<Rightarrow> 'w \<Rightarrow> (int \<times> string) \<times> 'w"
  GetChannelUnit :: "dword \<Rightarrow> string \<Rightarrow> 'w \<Rightarrow> (int \<times> string) \<times> 'w"
  GetChannelValue :: "dword \<Rightarrow> dword \<Rightarrow> dword \<Rightarrow> 'w \<Rightarrow> (int \<times> double \<times> string) \<times> 'w"
  GetChannelValRange :: "dword \<Rightarrow> 'w \<Rightarrow> (int \<times> double \<times> double) \<times> 'w"
  yasdi_SetChannelValue :: "dword \<Rightarrow> dword \<Rightarrow> double \<Rightarrow> 'w \<Rightarrow> int \<times> 'w"

text \<open>
  The case labels of a C++ \<^verbatim>\<open>switch\<close> are pairwise different, or the file does not
  compile: this holds of the labels of the two \<^verbatim>\<open>switch\<close> statements of the wrapper.
\<close>

definition labels_distinct :: "'w yasdi \<Rightarrow> bool" where
  "labels_distinct k \<longleftrightarrow>
     distinct [YE_OK k, YE_DEV_DETECT_IN_PROGRESS k, YE_NOT_ALL_DEVS_FOUND k] \<and>
     distinct [INVALID_HANDLE k, YE_SHUTDOWN k, YE_TIMEOUT k, YE_VALUE_NOT_VALID k,
               YE_NO_ACCESS_RIGHTS k]"

text \<open>The calls of library functions, with the arguments the wrapper passes in.\<close>

datatype native_call =
    Call_yasdiMasterInitialize string
  | Call_yasdiMasterGetDriver nat
  | Call_yasdiGetDriverName dword
  | Call_yasdiSetDriverOnline dword
  | Call_yasdiSetDriverOffline dword
  | Call_yasdiMasterShutdown
  | Call_DoStartDeviceDetection int bool
  | Call_GetDeviceHandles nat
  | Call_GetDeviceName dword
  | Call_GetChannelHandlesEx dword nat TChanType
  | Call_GetChannelName dword
  | Call_GetChannelUnit dword
  | Call_GetChannelValue dword dword dword
  | Call_GetChannelValRange dword
  | Call_SetChannelValue dword dword double

text \<open>What is written to \<^verbatim>\<open>std::cout\<close>: the operands of \<^verbatim>\<open><<\<close>, unformatted.\<close>

datatype out_item = Str string | UInt dword | SInt int | Dbl double | Endl

section \<open>The wrapper object and its surroundings\<close>

text \<open>
  The member variables of \<^verbatim>\<open>InverterWrapper\<close>, the state of the library, the calls
  made to the library so far and the output written so far. \<open>drivers\<close> holds the
  handles stored by the last driver enumeration; the loops over \<^verbatim>\<open>drivers[i]\<close> stop at
  \<open>driver_count\<close>.
\<close>

record 'w session =
  initialized :: bool
  drivers :: "dword list"
  driver_count :: dword
  debug_level :: int
  world :: 'w
  calls :: "native_call list"
  out :: "out_item list"

definition native :: "native_call \<Rightarrow> ('w \<Rightarrow> 'a \<times> 'w) \<Rightarrow> 'w session \<Rightarrow> 'a \<times> 'w session" where
  "native c f s =
     (let (r, w') = f (world s) in (r, s\<lparr>world := w', calls := calls s @ [c]\<rparr>))"

definition print :: "out_item list \<Rightarrow> 'w session \<Rightarrow> 'w session" where
  "print items s = s\<lparr>out := out s @ items\<rparr>"

definition debug :: "out_item list \<Rightarrow> 'w session \<Rightarrow> 'w session" where
  "debug items s = (if debug_level s > 0 then print items s else s)"

text \<open>The constructor: every member has its default, but for the debug level.\<close>

definition InverterWrapper :: "js_value list \<Rightarrow> 'w \<Rightarrow> 'w session" where
  "InverterWrapper info w =
     \<lparr>initialized = False, drivers = [], driver_count = 0,
      debug_level = (if length info > 0 \<and> IsNumber (info ! 0)
                     then sint (Int32Value (DoubleValue (info ! 0))) else 0),
      world = w, calls = [], out = []\<rparr>"

section \<open>Driver lifecycle\<close>

text \<open>
  \<^verbatim>\<open>InverterWrapper::Initialize\<close> (lines 96 to 143 of \<^verbatim>\<open>src/inverter_wrapper.cc\<close>). Its
  loop over the enumerated drivers tries every driver and remembers whether one went
  online.
\<close>

fun set_drivers_online :: "'w yasdi \<Rightarrow> dword list \<Rightarrow> bool \<Rightarrow> 'w session \<Rightarrow> bool \<times> 'w session" where
  "set_drivers_online k [] any_driver_online s = (any_driver_online, s)"
| "set_drivers_online k (d # ds) any_driver_online s =
     (let ((_, driverName), s1) = native (Call_yasdiGetDriverName d) (yasdiGetDriverName k d (uninit k)) s;
          s2 = debug [Str ''Switching on driver: '', Str driverName, Endl] s1;
          (online, s3) = native (Call_yasdiSetDriverOnline d) (yasdiSetDriverOnline k d) s2
      in set_drivers_online k ds (if online then True else any_driver_online) s3)"

definition Initialize :: "'w yasdi \<Rightarrow> js_value list \<Rightarrow> 'w session \<Rightarrow> js_result \<times> 'w session" where
  "Initialize k info s =
     (if length info < 1 \<or> \<not> IsString (info ! 0)
      then (Inl (TypeError ''Config file path expected as argument''), s)
      else
        let config_path = Utf8Value (info ! 0);
            ((result, n), s1) = native (Call_yasdiMasterInitialize (c_str config_path))
                                  (yasdiMasterInitialize k (c_str config_path) (driver_count s)) s;
            s2 = s1\<lparr>driver_count := n\<rparr>;
            s3 = debug [Str ''YASDI initialization returned: '', UInt (word_of_int result), Endl,
                        Str ''Found '', UInt (driver_count s2), Str '' drivers'', Endl] s2
        in if driver_count s3 = 0
           then (Inl (Error ''No YASDI drivers found''), s3)
           else
             let (hs, s4) = native (Call_yasdiMasterGetDriver 10) (yasdiMasterGetDriver k 10) s3;
                 s5 = s4\<lparr>drivers := hs, driver_count := of_nat (length hs)\<rparr>;
                 (any_driver_online, s6) = set_drivers_online k hs False s5
             in if \<not> any_driver_online
                then (Inl (Error ''No drivers could be set online''), s6)
                else (Inr (JsBoolean True), s6\<lparr>initialized := True\<rparr>))"

text \<open>
  \<^verbatim>\<open>InverterWrapper::Shutdown\<close> (lines 493 to 510). \<^verbatim>\<open>yasdiSetDriverOffline\<close> and
  \<^verbatim>\<open>yasdiMasterShutdown\<close> return nothing that the wrapper reads.
\<close>

fun set_drivers_offline :: "'w yasdi \<Rightarrow> dword list \<Rightarrow> 'w session \<Rightarrow> 'w session" where
  "set_drivers_offline k [] s = s"
| "set_drivers_offline k (d # ds) s =
     set_drivers_offline k ds (snd (native (Call_yasdiSetDriverOffline d) (yasdiSetDriverOffline k d) s))"

definition Shutdown :: "'w yasdi \<Rightarrow> js_value list \<Rightarrow> 'w session \<Rightarrow> js_result \<times> 'w session" where
  "Shutdown k info s =
     (if \<not> initialized s then (Inr (JsBoolean True), s)
      else
        let s1 = set_drivers_offline k (take (unat (driver_count s)) (drivers s)) s;
            (_, s2) = native Call_yasdiMasterShutdown (yasdiMasterShutdown k) s1
        in (Inr (JsBoolean True), s2\<lparr>initialized := False\<rparr>))"

text \<open>
  The destructor (lines 86 to 94) repeats the shutdown sequence when the object is
  still initialised.
\<close>

definition destroy :: "'w yasdi \<Rightarrow> 'w session \<Rightarrow> 'w session" where
  "destroy k s =
     (if initialized s
      then
        let s1 = set_drivers_offline k (take (unat (driver_count s)) (drivers s)) s
        in snd (native Call_yasdiMasterShutdown (yasdiMasterShutdown k) s1)
      else s)"

text \<open>
  The loops over \<^verbatim>\<open>drivers[i]\<close> read initialised entries only: \<open>driver_count\<close> never
  exceeds the number of handles stored by the last enumeration.
\<close>

definition drivers_ok :: "'w session \<Rightarrow> bool" where
  "drivers_ok s \<longleftrightarrow> unat (driver_count s) \<le> length (drivers s)"

section \<open>Device discovery\<close>

text \<open>
  \<^verbatim>\<open>InverterWrapper::detect_devices\<close> (lines 162 to 183) and \<^verbatim>\<open>DetectDevices\<close> (lines 145
  to 160). The \<^verbatim>\<open>switch\<close> on the status is a chain of tests in the order of its labels.
\<close>

definition detect_devices :: "'w yasdi \<Rightarrow> int \<Rightarrow> 'w session \<Rightarrow> bool \<times> 'w session" where
  "detect_devices k device_count s =
     (let s1 = debug [Str ''Trying to detect '', SInt device_count, Str '' devices'', Endl] s;
          (error, s2) = native (Call_DoStartDeviceDetection device_count True)
                          (DoStartDeviceDetection k device_count True) s1
      in if error = YE_OK k then (True, s2)
         else if error = YE_DEV_DETECT_IN_PROGRESS k
         then (False, print [Str ''Error: Detection in progress'', Endl] s2)
         else if error = YE_NOT_ALL_DEVS_FOUND k
         then (False, print [Str ''Error: Not all devices were found'', Endl] s2)
         else (False, print [Str ''Error: Unknown YASDI error'', Endl] s2))"

definition not_initialized :: js_exception where
  "not_initialized = Error ''YASDI not initialized. Call initialize() first''"

definition DetectDevices :: "'w yasdi \<Rightarrow> js_value list \<Rightarrow> 'w session \<Rightarrow> js_result \<times> 'w session" where
  "DetectDevices k info s =
     (if \<not> initialized s then (Inl not_initialized, s)
      else
        let device_count = (if length info > 0 \<and> IsNumber (info ! 0)
                            then sint (Int32Value (DoubleValue (info ! 0))) else 1);
            (success, s1) = detect_devices k device_count s
        in (Inr (JsBoolean success), s1))"

text \<open>\<^verbatim>\<open>std::string::find\<close> of a one-character string: the first position of the character.\<close>

fun find_char :: "char \<Rightarrow> string \<Rightarrow> nat option" where
  "find_char c [] = None"
| "find_char c (x # xs) = (if x = c then Some 0 else map_option Suc (find_char c xs))"

lemma find_char_Some: "find_char c t = Some pos \<Longrightarrow> pos < length t \<and> t ! pos = c"
proof (induction t arbitrary: pos)
  case Nil
  then show ?case by simp
next
  case (Cons x xs)
  then show ?case by (auto split: if_splits)
qed

lemma count_after_replace:
  assumes "pos < length t" and "t ! pos = c" and "d \<noteq> c"
  shows "length (filter (\<lambda>x. x = c) (t[pos := d])) < length (filter (\<lambda>x. x = c) t)"
  using assms
proof (induction t arbitrary: pos)
  case Nil
  then show ?case by simp
next
  case (Cons x xs)
  then show ?case by (cases pos) auto
qed

text \<open>
  The loop of \<^verbatim>\<open>get_device_map\<close> on the device name (lines 226 to 231): while the name
  holds a space, the first one is replaced by an underscore.
\<close>

function replace_spaces :: "string \<Rightarrow> string" where
  "replace_spaces device_name =
     (case find_char (CHR '' '') device_name of
        None \<Rightarrow> device_name
      | Some pos \<Rightarrow> replace_spaces (device_name[pos := CHR ''_'']))"
  by pat_completeness auto
termination
proof (relation "measure (\<lambda>t. length (filter (\<lambda>x. x = CHR '' '') t))")
  show "wf (measure (\<lambda>t. length (filter (\<lambda>x. x = CHR '' '') t)))" by simp
next
  fix device_name :: string and pos
  assume "find_char (CHR '' '') device_name = Some pos"
  then have "pos < length device_name \<and> device_name ! pos = CHR '' ''"
    by (rule find_char_Some)
  then show "(device_name[pos := CHR ''_''], device_name)
               \<in> measure (\<lambda>t. length (filter (\<lambda>x. x = CHR '' '') t))"
    by (simp add: count_after_replace)
qed

declare replace_spaces.simps [simp del]

text \<open>
  \<^verbatim>\<open>device_map[h] = name\<close> on a \<^verbatim>\<open>std::map\<close>, kept as a list in ascending order of the keys:
  the entry of an equal key is overwritten.
\<close>

fun map_assign :: "dword \<Rightarrow> string \<Rightarrow> (dword \<times> string) list \<Rightarrow> (dword \<times> string) list" where
  "map_assign h n [] = [(h, n)]"
| "map_assign h n ((h', n') # m) =
     (if h < h' then (h, n) # (h', n') # m
      else if h = h' then (h, n) # m
      else (h', n') # map_assign h n m)"

text \<open>
  \<^verbatim>\<open>InverterWrapper::get_device_map\<close> (lines 208 to 243) and \<^verbatim>\<open>GetDevices\<close> (lines 185 to
  206). \<^verbatim>\<open>namebuf\<close> starts empty and is not cleared between two devices; the status of
  \<^verbatim>\<open>GetDeviceName\<close> is not read.
\<close>

fun device_loop :: "'w yasdi \<Rightarrow> dword list \<Rightarrow> string \<Rightarrow> (dword \<times> string) list \<Rightarrow> 'w session
    \<Rightarrow> (dword \<times> string) list \<times> 'w session" where
  "device_loop k [] namebuf device_map s = (device_map, s)"
| "device_loop k (h # hs) namebuf device_map s =
     (let ((_, namebuf'), s1) = native (Call_GetDeviceName h) (GetDeviceName k h namebuf) s;
          s2 = debug [Str ''Found device with a handle of: '', UInt h,
                      Str '' and a name of: '', Str namebuf', Endl] s1;
          device_name = replace_spaces namebuf'
      in device_loop k hs namebuf' (map_assign h device_name device_map) s2)"

definition get_device_map :: "'w yasdi \<Rightarrow> 'w session \<Rightarrow> (dword \<times> string) list \<times> 'w session" where
  "get_device_map k s =
     (let (hs, s1) = native (Call_GetDeviceHandles 50) (GetDeviceHandles k 50) s
      in if length hs > 0 then device_loop k hs [] [] s1
         else ([], debug [Str ''No devices have been found'', Endl] s1))"

definition GetDevices :: "'w yasdi \<Rightarrow> js_value list \<Rightarrow> 'w session \<Rightarrow> js_result \<times> 'w session" where
  "GetDevices k info s =
     (if \<not> initialized s then (Inl not_initialized, s)
      else
        let (device_map, s1) = get_device_map k s
        in (Inr (JsArray (map (\<lambda>(h, n). JsObject (obj_set ''name'' (JsString n)
                                (obj_set ''handle'' (number_of_dword h) []))) device_map)), s1))"

section \<open>Channel access\<close>

record ChannelData =
  ch_name :: string
  ch_units :: string
  ch_value :: string
  ch_numericValue :: double

text \<open>
  \<^verbatim>\<open>InverterWrapper::fetch_channel_data\<close> (lines 276 to 329) and its loop over the
  channel handles. A \<^verbatim>\<open>continue\<close> goes on with the next handle and the data collected
  so far. The staleness bound \<^verbatim>\<open>max_age\<close> is 5 seconds. The status of \<^verbatim>\<open>GetChannelUnit\<close>
  is not read, and \<^verbatim>\<open>channel_units\<close> keeps its content from one channel to the next.
\<close>

fun fetch_loop :: "'w yasdi \<Rightarrow> dword \<Rightarrow> dword list \<Rightarrow> string \<Rightarrow> ChannelData list \<Rightarrow> 'w session
    \<Rightarrow> ChannelData list \<times> 'w session" where
  "fetch_loop k device_handle [] channel_units data_vector s = (data_vector, s)"
| "fetch_loop k device_handle (c # cs) channel_units data_vector s =
     (let ((result, channel_name), s1) = native (Call_GetChannelName c) (GetChannelName k c) s
      in if result \<noteq> YE_OK k
         then fetch_loop k device_handle cs channel_units data_vector
                (debug [Str ''Error reading channel name'', Endl] s1)
         else
           let ((_, channel_units'), s2) =
                 native (Call_GetChannelUnit c) (GetChannelUnit k c channel_units) s1;
               ((result', double_val, channel_value), s3) =
                 native (Call_GetChannelValue c device_handle 5) (GetChannelValue k c device_handle 5) s2
           in if result' \<noteq> YE_OK k
              then fetch_loop k device_handle cs channel_units' data_vector
                     (debug [Str ''Error reading channel value for channel: '',
                             Str channel_name, Endl] s3)
              else fetch_loop k device_handle cs channel_units'
                     (data_vector @ [\<lparr>ch_name = channel_name, ch_units = channel_units',
                                      ch_value = channel_value, ch_numericValue = double_val\<rparr>]) s3)"

definition fetch_channel_data :: "'w yasdi \<Rightarrow> dword \<Rightarrow> 'w session \<Rightarrow> ChannelData list \<times> 'w session" where
  "fetch_channel_data k device_handle s =
     (let (cs, s1) = native (Call_GetChannelHandlesEx device_handle 500 SPOTCHANNELS)
                       (GetChannelHandlesEx k device_handle 500 SPOTCHANNELS) s
      in if length cs < 1
         then ([], debug [Str ''Could not get the channel count'', Endl] s1)
         else fetch_loop k device_handle cs (uninit k) [] s1)"

text \<open>
  \<^verbatim>\<open>InverterWrapper::GetDeviceData\<close> (lines 245 to 274): one property for each entry,
  under the name of the channel, after the property \<open>timestamp\<close>.
\<close>

definition GetDeviceData :: "'w yasdi \<Rightarrow> js_value list \<Rightarrow> 'w session \<Rightarrow> js_result \<times> 'w session" where
  "GetDeviceData k info s =
     (if \<not> initialized s then (Inl not_initialized, s)
      else if length info < 1 \<or> \<not> IsNumber (info ! 0)
      then (Inl (TypeError ''Device handle expected as argument''), s)
      else
        let device_handle = Int32Value (DoubleValue (info ! 0));
            (channel_data, s1) = fetch_channel_data k device_handle s;
            channelObj = (\<lambda>d. JsObject
              (obj_set ''numericValue'' (JsNumber (ch_numericValue d))
                (obj_set ''units'' (JsString (ch_units d))
                  (obj_set ''value'' (JsString (ch_value d)) []))))
        in (Inr (JsObject (foldl (\<lambda>result d. obj_set (ch_name d) (channelObj d) result)
                             (obj_set ''timestamp'' (JsString []) []) channel_data)), s1))"

text \<open>
  \<^verbatim>\<open>InverterWrapper::find_channel_handle\<close> (lines 332 to 354). The comparison
  \<^verbatim>\<open>channel_name == name_buffer\<close> of a \<^verbatim>\<open>std::string\<close> with a C string is equality of the
  two byte strings.
\<close>

fun find_loop :: "'w yasdi \<Rightarrow> string \<Rightarrow> dword list \<Rightarrow> 'w session \<Rightarrow> dword \<times> 'w session" where
  "find_loop k channel_name [] s = (0, s)"
| "find_loop k channel_name (c # cs) s =
     (let ((result, name_buffer), s1) = native (Call_GetChannelName c) (GetChannelName k c) s
      in if result = YE_OK k \<and> channel_name = name_buffer then (c, s1)
         else find_loop k channel_name cs s1)"

definition find_channel_handle :: "'w yasdi \<Rightarrow> dword \<Rightarrow> string \<Rightarrow> 'w session \<Rightarrow> dword \<times> 'w session" where
  "find_channel_handle k device_handle channel_name s =
     (let (cs, s1) = native (Call_GetChannelHandlesEx device_handle 500 ALLCHANNELS)
                       (GetChannelHandlesEx k device_handle 500 ALLCHANNELS) s
      in if length cs < 1
         then (0, debug [Str ''Could not get channel handles'', Endl] s1)
         else find_loop k channel_name cs s1)"

text \<open>\<^verbatim>\<open>InverterWrapper::GetChannelInfo\<close> (lines 357 to 403).\<close>

definition GetChannelInfo :: "'w yasdi \<Rightarrow> js_value list \<Rightarrow> 'w session \<Rightarrow> js_result \<times> 'w session" where
  "GetChannelInfo k info s =
     (if \<not> initialized s then (Inl not_initialized, s)
      else if length info < 2 \<or> \<not> IsNumber (info ! 0) \<or> \<not> IsString (info ! 1)
      then (Inl (TypeError ''Expected arguments: deviceHandle (number), channelName (string)''), s)
      else
        let device_handle = Int32Value (DoubleValue (info ! 0));
            channel_name = Utf8Value (info ! 1);
            (channel_handle, s1) = find_channel_handle k device_handle channel_name s
        in if channel_handle = 0 then (Inl (Error ''Channel not found''), s1)
           else
             let ((result, min_value, max_value), s2) =
                   native (Call_GetChannelValRange channel_handle) (GetChannelValRange k channel_handle) s1
             in if result \<noteq> YE_OK k
                then (Inl (Error ''Failed to get channel value range''),
                      debug [Str ''Error getting channel value range: '', SInt result, Endl] s2)
                else
                  let ((_, channel_units), s3) =
                        native (Call_GetChannelUnit channel_handle)
                          (GetChannelUnit k channel_handle (uninit k)) s2
                  in (Inr (JsObject
                       (obj_set ''units'' (JsString channel_units)
                         (obj_set ''maxValue'' (JsNumber max_value)
                           (obj_set ''minValue'' (JsNumber min_value)
                             (obj_set ''name'' (JsString channel_name)
                               (obj_set ''handle'' (number_of_dword channel_handle) [])))))), s3))"

text \<open>
  \<^verbatim>\<open>InverterWrapper::SetChannelValue\<close> (lines 406 to 491). First the message that its
  \<^verbatim>\<open>switch\<close> chooses for a status other than \<^verbatim>\<open>YE_OK\<close>, as a chain of tests in the order
  of the labels.
\<close>

definition error_message :: "'w yasdi \<Rightarrow> int \<Rightarrow> string" where
  "error_message k set_result =
     (if set_result = INVALID_HANDLE k then ''Invalid channel handle''
      else if set_result = YE_SHUTDOWN k then ''YASDI is in shutdown mode''
      else if set_result = YE_TIMEOUT k then ''Device did not respond (timeout)''
      else if set_result = YE_VALUE_NOT_VALID k then ''Channel value not within valid range''
      else if set_result = YE_NO_ACCESS_RIGHTS k then ''Not enough access rights to write to channel''
      else ''Unknown error'')"

definition SetChannelValue :: "'w yasdi \<Rightarrow> js_value list \<Rightarrow> 'w session \<Rightarrow> js_result \<times> 'w session" where
  "SetChannelValue k info s =
     (if \<not> initialized s then (Inl not_initialized, s)
      else if length info < 3 \<or> \<not> IsNumber (info ! 0) \<or> \<not> IsString (info ! 1) \<or> \<not> IsNumber (info ! 2)
      then (Inl (TypeError
              ''Expected arguments: deviceHandle (number), channelName (string), value (number)''), s)
      else
        let device_handle = Int32Value (DoubleValue (info ! 0));
            channel_name = Utf8Value (info ! 1);
            v = DoubleValue (info ! 2);
            (channel_handle, s1) = find_channel_handle k device_handle channel_name s
        in if channel_handle = 0 then (Inl (Error ''Channel not found''), s1)
           else
             let ((range_result, min_value, max_value), s2) =
                   native (Call_GetChannelValRange channel_handle) (GetChannelValRange k channel_handle) s1
             in if range_result = YE_OK k \<and> (dless v min_value \<or> dless max_value v)
                then (Inr (JsObject
                       (obj_set ''validRange''
                           (JsObject (obj_set ''max'' (JsNumber max_value)
                                       (obj_set ''min'' (JsNumber min_value) [])))
                         (obj_set ''code'' (number_of_int (YE_VALUE_NOT_VALID k))
                           (obj_set ''error'' (JsString ''Value out of range'')
                             (obj_set ''success'' (JsBoolean False) []))))),
                      debug [Str ''Value out of range. Valid range: ['', Dbl min_value, Str '', '',
                             Dbl max_value, Str '']'', Endl] s2)
                else
                  let (set_result, s3) =
                        native (Call_SetChannelValue channel_handle device_handle v)
                          (yasdi_SetChannelValue k channel_handle device_handle v) s2;
                      result = obj_set ''code'' (number_of_int set_result)
                                 (obj_set ''success'' (JsBoolean (set_result = YE_OK k)) [])
                  in if set_result \<noteq> YE_OK k
                     then (Inr (JsObject (obj_set ''error'' (JsString (error_message k set_result)) result)),
                           debug [Str ''Error setting channel value: '', Str (error_message k set_result),
                                  Str '' (code: '', SInt set_result, Str '')'', Endl] s3)
                     else (Inr (JsObject result), s3))"

section \<open>The library during a loop of the wrapper\<close>

text \<open>
  What the library answers, and the state it is left in, when the drivers are switched
  on one after the other from the state \<open>w\<close>: each driver is asked for its name and then
  set online, at the state that the calls before it left.
\<close>

fun switch_on :: "'w yasdi \<Rightarrow> dword list \<Rightarrow> 'w \<Rightarrow> bool list \<times> 'w" where
  "switch_on k [] w = ([], w)"
| "switch_on k (d # ds) w =
     (let w1 = snd (yasdiGetDriverName k d (uninit k) w);
          (online, w2) = yasdiSetDriverOnline k d w1;
          (answers, w3) = switch_on k ds w2
      in (online # answers, w3))"

text \<open>
  What the library answers for one channel of a poll, at the state \<open>w\<close> and with
  \<open>channel_units\<close> in the buffer of the unit: the name cannot be read; the name is read
  but the value cannot; or name, unit and value are read. \<open>readings\<close> are the answers
  for the channels in their order, each at the state that the reads before it left,
  and \<open>calls_of_reading\<close> are the calls that one answer takes.
\<close>

datatype reading = NameFailed | ValueFailed string | Read ChannelData

definition read_channel :: "'w yasdi \<Rightarrow> dword \<Rightarrow> dword \<Rightarrow> string \<Rightarrow> 'w \<Rightarrow> reading \<times> string \<times> 'w" where
  "read_channel k device_handle c channel_units w =
     (let ((result, channel_name), w1) = GetChannelName k c w
      in if result \<noteq> YE_OK k then (NameFailed, channel_units, w1)
         else
           let ((_, channel_units'), w2) = GetChannelUnit k c channel_units w1;
               ((result', double_val, channel_value), w3) = GetChannelValue k c device_handle 5 w2
           in if result' \<noteq> YE_OK k then (ValueFailed channel_name, channel_units', w3)
              else (Read \<lparr>ch_name = channel_name, ch_units = channel_units',
                           ch_value = channel_value, ch_numericValue = double_val\<rparr>,
                    channel_units', w3))"

fun readings :: "'w yasdi \<Rightarrow> dword \<Rightarrow> dword list \<Rightarrow> string \<Rightarrow> 'w \<Rightarrow> reading list \<times> 'w" where
  "readings k device_handle [] channel_units w = ([], w)"
| "readings k device_handle (c # cs) channel_units w =
     (let (r, channel_units', w') = read_channel k device_handle c channel_units w;
          (rs, w'') = readings k device_handle cs channel_units' w'
      in (r # rs, w''))"

fun the_data :: "reading \<Rightarrow> ChannelData list" where
  "the_data (Read d) = [d]"
| "the_data _ = []"

fun reading_name :: "reading \<Rightarrow> string" where
  "reading_name (Read d) = ch_name d"
| "reading_name (ValueFailed n) = n"
| "reading_name NameFailed = []"

fun calls_of_reading :: "dword \<Rightarrow> dword \<Rightarrow> reading \<Rightarrow> native_call list" where
  "calls_of_reading device_handle c NameFailed = [Call_GetChannelName c]"
| "calls_of_reading device_handle c _ =
     [Call_GetChannelName c, Call_GetChannelUnit c, Call_GetChannelValue c device_handle 5]"

text \<open>The calls that write to a device.\<close>

fun is_write :: "native_call \<Rightarrow> bool" where
  "is_write (Call_SetChannelValue c d v) = True"
| "is_write _ = False"

section \<open>A sample library\<close>

text \<open>
  One behaviour of the library, to run the wrapper on: the configuration
  \<^verbatim>\<open>yasdi.ini\<close> has two drivers, of which the first goes online; one inverter with
  the handle 7 answers; it has three spot channels (the value of \<^verbatim>\<open>Uac\<close> cannot be read
  in time) and one parameter channel \<^verbatim>\<open>Plimit\<close> with the range from 0 to 2500. The state
  of this library is the status with which it answers the next write.
\<close>

definition demo :: "int yasdi" where
  "demo =
     \<lparr>YE_OK = 0, YE_DEV_DETECT_IN_PROGRESS = -9, YE_NOT_ALL_DEVS_FOUND = -1,
      INVALID_HANDLE = 0, YE_SHUTDOWN = -2, YE_TIMEOUT = -3, YE_VALUE_NOT_VALID = -4,
      YE_NO_ACCESS_RIGHTS = -5,
      uninit = ''?'',
      yasdiMasterInitialize =
        (\<lambda>path n w. if path = ''yasdi.ini'' then ((0, 2), w) else ((-1, n), w)),
      yasdiMasterGetDriver = (\<lambda>cap w. (take cap [1, 2], w)),
      yasdiGetDriverName =
        (\<lambda>d buf w. if d = 1 then ((True, ''COM1''), w) else ((False, buf), w)),
      yasdiSetDriverOnline = (\<lambda>d w. (d = 1, w)),
      yasdiSetDriverOffline = (\<lambda>d w. ((), w)),
      yasdiMasterShutdown = (\<lambda>w. ((), w)),
      DoStartDeviceDetection = (\<lambda>n wait w. (if n \<le> 1 then 0 else -1, w)),
      GetDeviceHandles = (\<lambda>cap w. (take cap [7], w)),
      GetDeviceName =
        (\<lambda>h buf w. if h = 7 then ((0, ''SB 2500 SN 1234''), w) else ((-1, buf), w)),
      GetChannelHandlesEx = (\<lambda>h cap t w.
         (if h = 7
          then take cap (case t of SPOTCHANNELS \<Rightarrow> [10, 11, 12] | ALLCHANNELS \<Rightarrow> [10, 11, 12, 20])
          else [], w)),
      GetChannelName = (\<lambda>c w.
         (if c = 10 then (0, ''Pac'') else if c = 11 then (0, ''Uac'')
          else if c = 12 then (0, ''Fac'') else if c = 20 then (0, ''Plimit'')
          else (-1, []), w)),
      GetChannelUnit = (\<lambda>c buf w.
         (if c = 10 \<or> c = 20 then (0, ''W'') else if c = 11 then (0, ''V'')
          else if c = 12 then (0, ''Hz'') else (-1, buf), w)),
      GetChannelValue = (\<lambda>c dev age w.
         (if c = 10 then (0, Finite 1200, ''1200'') else if c = 12 then (0, Finite 50, ''50'')
          else (-3, NaN, []), w)),
      GetChannelValRange =
        (\<lambda>c w. (if c = 20 then (0, Finite 0, Finite 2500) else (-1, NaN, NaN), w)),
      yasdi_SetChannelValue = (\<lambda>c dev v w. (w, w))\<rparr>"

text \<open>
  A wrapper object on the sample library after a successful \<^verbatim>\<open>initialize\<close>, with an
  empty record of calls and of output; \<open>w\<close> is the state of the library.
\<close>

definition ready :: "int \<Rightarrow> int session" where
  "ready w = \<lparr>initialized = True, drivers = [1, 2], driver_count = 2, debug_level = 0,
              world = w, calls = [], out = []\<rparr>"

text \<open>
  Four variants of the sample library. \<open>counting\<close> counts in its state the drivers set
  offline (by 1) and the shutdowns (by 100). In \<open>once\<close> a driver is asked at the state \<open>w\<close>
  and only the driver 2 at the state 0 goes online; every request moves the state on.
  \<open>no_handles\<close> reports two drivers and then stores no handle. In \<open>flaky\<close> the state
  counts the value reads, and the second value read fails, whatever the channel.
\<close>

definition counting :: "int yasdi" where
  "counting = demo\<lparr>yasdiSetDriverOffline := (\<lambda>d w. ((), w + 1)),
                    yasdiMasterShutdown := (\<lambda>w. ((), w + 100))\<rparr>"

definition once :: "int yasdi" where
  "once = demo\<lparr>yasdiSetDriverOnline := (\<lambda>d w. (d = 2 \<and> w = 0, w + 1))\<rparr>"

definition no_handles :: "int yasdi" where
  "no_handles = demo\<lparr>yasdiMasterGetDriver := (\<lambda>cap w. ([], w))\<rparr>"

definition flaky :: "int yasdi" where
  "flaky = demo\<lparr>GetChannelValue :=
             (\<lambda>c dev age w. (if w = 1 then (-3, NaN, []) else (0, Finite 230, ''230''), w + 1))\<rparr>"

section \<open>Basic facts\<close>

lemma native_eq:
  "native c f s = (fst (f (world s)), s\<lparr>world := snd (f (world s)), calls := calls s @ [c]\<rparr>)"
  by (simp add: native_def split_beta)

lemma debug_fields:
  "calls (debug items s) = calls s" "world (debug items s) = world s"
  "initialized (debug items s) = initialized s" "drivers (debug items s) = drivers s"
  "driver_count (debug items s) = driver_count s" "debug_level (debug items s) = debug_level s"
  by (simp_all add: debug_def print_def)

lemma print_fields:
  "calls (print items s) = calls s" "world (print items s) = world s"
  "initialized (print items s) = initialized s" "drivers (print items s) = drivers s"
  "driver_count (print items s) = driver_count s" "debug_level (print items s) = debug_level s"
  "out (print items s) = out s @ items"
  by (simp_all add: print_def)

lemma find_loop_writes:
  "filter is_write (calls (snd (find_loop k n cs s))) = filter is_write (calls s)"
proof (induction cs arbitrary: s)
  case Nil
  then show ?case by simp
next
  case (Cons c cs)
  show ?case
    by (simp add: native_eq split_beta Cons.IH)
qed

lemma find_channel_handle_writes:
  "filter is_write (calls (snd (find_channel_handle k d n s))) = filter is_write (calls s)"
  by (simp add: find_channel_handle_def native_eq split_beta find_loop_writes debug_fields)

lemma find_loop_initialized:
  "initialized (snd (find_loop k n cs s)) = initialized s"
proof (induction cs arbitrary: s)
  case Nil
  then show ?case by simp
next
  case (Cons c cs)
  show ?case
    by (simp add: native_eq split_beta Cons.IH)
qed

lemma demo_fields:
  "YE_OK demo = 0" "YE_VALUE_NOT_VALID demo = -4" "INVALID_HANDLE demo = 0"
  "YE_SHUTDOWN demo = -2" "YE_TIMEOUT demo = -3" "YE_NO_ACCESS_RIGHTS demo = -5"
  "YE_DEV_DETECT_IN_PROGRESS demo = -9" "YE_NOT_ALL_DEVS_FOUND demo = -1"
  "uninit demo = ''?''"
  "GetChannelHandlesEx demo = (\<lambda>h cap t w.
         (if h = 7
          then take cap (case t of SPOTCHANNELS \<Rightarrow> [10, 11, 12] | ALLCHANNELS \<Rightarrow> [10, 11, 12, 20])
          else [], w))"
  "GetChannelName demo = (\<lambda>c w.
         (if c = 10 then (0, ''Pac'') else if c = 11 then (0, ''Uac'')
          else if c = 12 then (0, ''Fac'') else if c = 20 then (0, ''Plimit'')
          else (-1, []), w))"
  "GetChannelValRange demo =
        (\<lambda>c w. (if c = 20 then (0, Finite 0, Finite 2500) else (-1, NaN, NaN), w))"
  "yasdi_SetChannelValue demo = (\<lambda>c dev v w. (w, w))"
  by (simp_all add: demo_def)

lemma labels_distinct_demo: "labels_distinct demo"
  by (simp add: labels_distinct_def demo_fields)

lemma write_labels:
  assumes "labels_distinct k"
  shows "YE_SHUTDOWN k \<noteq> INVALID_HANDLE k" "YE_TIMEOUT k \<noteq> INVALID_HANDLE k"
    "YE_TIMEOUT k \<noteq> YE_SHUTDOWN k" "YE_VALUE_NOT_VALID k \<noteq> INVALID_HANDLE k"
    "YE_VALUE_NOT_VALID k \<noteq> YE_SHUTDOWN k" "YE_VALUE_NOT_VALID k \<noteq> YE_TIMEOUT k"
    "YE_NO_ACCESS_RIGHTS k \<noteq> INVALID_HANDLE k" "YE_NO_ACCESS_RIGHTS k \<noteq> YE_SHUTDOWN k"
    "YE_NO_ACCESS_RIGHTS k \<noteq> YE_TIMEOUT k" "YE_NO_ACCESS_RIGHTS k \<noteq> YE_VALUE_NOT_VALID k"
  using assms by (auto simp add: labels_distinct_def)

lemma error_message_cases:
  assumes "labels_distinct k"
  shows "(st = INVALID_HANDLE k \<longrightarrow> error_message k st = ''Invalid channel handle'')
       \<and> (st = YE_SHUTDOWN k \<longrightarrow> error_message k st = ''YASDI is in shutdown mode'')
       \<and> (st = YE_TIMEOUT k \<longrightarrow> error_message k st = ''Device did not respond (timeout)'')
       \<and> (st = YE_VALUE_NOT_VALID k \<longrightarrow> error_message k st = ''Channel value not within valid range'')
       \<and> (st = YE_NO_ACCESS_RIGHTS k \<longrightarrow>
            error_message k st = ''Not enough access rights to write to channel'')
       \<and> (st \<notin> {INVALID_HANDLE k, YE_SHUTDOWN k, YE_TIMEOUT k, YE_VALUE_NOT_VALID k,
                  YE_NO_ACCESS_RIGHTS k} \<longrightarrow> error_message k st = ''Unknown error'')"
proof (intro conjI impI)
  assume "st = INVALID_HANDLE k"
  then show "error_message k st = ''Invalid channel handle''"
    by (simp add: error_message_def)
next
  assume "st = YE_SHUTDOWN k"
  then show "error_message k st = ''YASDI is in shutdown mode''"
    by (simp add: error_message_def write_labels [OF assms])
next
  assume "st = YE_TIMEOUT k"
  then show "error_message k st = ''Device did not respond (timeout)''"
    by (simp add: error_message_def write_labels [OF assms])
next
  assume "st = YE_VALUE_NOT_VALID k"
  then show "error_message k st = ''Channel value not within valid range''"
    by (simp add: error_message_def write_labels [OF assms])
next
  assume "st = YE_NO_ACCESS_RIGHTS k"
  then show "error_message k st = ''Not enough access rights to write to channel''"
    by (simp add: error_message_def write_labels [OF assms])
next
  assume "st \<notin> {INVALID_HANDLE k, YE_SHUTDOWN k, YE_TIMEOUT k, YE_VALUE_NOT_VALID k,
                  YE_NO_ACCESS_RIGHTS k}"
  then have "st \<noteq> INVALID_HANDLE k" "st \<noteq> YE_SHUTDOWN k" "st \<noteq> YE_TIMEOUT k"
    "st \<noteq> YE_VALUE_NOT_VALID k" "st \<noteq> YE_NO_ACCESS_RIGHTS k"
    by blast+
  then show "error_message k st = ''Unknown error''"
    by (simp add: error_message_def)
qed

lemma SetChannelValue_write:
  assumes "initialized s"
    and "find_channel_handle k (Int32Value dev) channel_name s = (channel_handle, s1)"
    and "channel_handle \<noteq> 0"
    and "GetChannelValRange k channel_handle (world s1) = ((range_result, min_value, max_value), w2)"
    and "range_result \<noteq> YE_OK k \<or> \<not> (dless v min_value \<or> dless max_value v)"
    and "yasdi_SetChannelValue k channel_handle (Int32Value dev) v w2 = (set_result, w3)"
  shows "fst (SetChannelValue k [JsNumber dev, JsString channel_name, JsNumber v] s)
           = Inr (JsObject ([(''success'', JsBoolean (set_result = YE_OK k)),
                             (''code'', number_of_int set_result)]
                            @ (if set_result \<noteq> YE_OK k
                               then [(''error'', JsString (error_message k set_result))] else [])))"
    and "calls (snd (SetChannelValue k [JsNumber dev, JsString channel_name, JsNumber v] s))
           = calls s1 @ [Call_GetChannelValRange channel_handle,
                         Call_SetChannelValue channel_handle (Int32Value dev) v]"
  using assms
  by (simp_all add: SetChannelValue_def native_eq debug_fields Let_def)

lemma find_loop_Cons:
  "find_loop k channel_name (c # cs) s =
     (if fst (GetChannelName k c (world s)) = (YE_OK k, channel_name)
      then (c, s\<lparr>world := snd (GetChannelName k c (world s)),
                  calls := calls s @ [Call_GetChannelName c]\<rparr>)
      else find_loop k channel_name cs
             (s\<lparr>world := snd (GetChannelName k c (world s)),
                calls := calls s @ [Call_GetChannelName c]\<rparr>))"
proof -
  have "(fst (fst (GetChannelName k c (world s))) = YE_OK k
           \<and> channel_name = snd (fst (GetChannelName k c (world s))))
        \<longleftrightarrow> fst (GetChannelName k c (world s)) = (YE_OK k, channel_name)"
    by (cases "fst (GetChannelName k c (world s))") auto
  then show ?thesis
    by (simp add: native_eq split_beta)
qed

lemma find_channel_handle_eq:
  "find_channel_handle k device_handle channel_name s =
     (if fst (GetChannelHandlesEx k device_handle 500 ALLCHANNELS (world s)) = []
      then (0, debug [Str ''Could not get channel handles'', Endl]
                 (s\<lparr>world := snd (GetChannelHandlesEx k device_handle 500 ALLCHANNELS (world s)),
                    calls := calls s @ [Call_GetChannelHandlesEx device_handle 500 ALLCHANNELS]\<rparr>))
      else find_loop k channel_name
             (fst (GetChannelHandlesEx k device_handle 500 ALLCHANNELS (world s)))
             (s\<lparr>world := snd (GetChannelHandlesEx k device_handle 500 ALLCHANNELS (world s)),
                calls := calls s @ [Call_GetChannelHandlesEx device_handle 500 ALLCHANNELS]\<rparr>))"
  by (simp add: find_channel_handle_def native_eq split_beta)

lemma find_loop_result:
  assumes "\<forall>c\<in>set cs. \<forall>w. fst (GetChannelName k c w) = nm c"
  shows "fst (find_loop k channel_name cs s)
           = (case List.find (\<lambda>c. nm c = (YE_OK k, channel_name)) cs of None \<Rightarrow> 0 | Some c \<Rightarrow> c)"
  using assms
proof (induction cs arbitrary: s)
  case Nil
  then show ?case by simp
next
  case (Cons c cs)
  have nm: "fst (GetChannelName k c (world s)) = nm c"
    using Cons.prems by simp
  have rest: "\<forall>c\<in>set cs. \<forall>w. fst (GetChannelName k c w) = nm c"
    using Cons.prems by simp
  show ?case
    by (simp only: find_loop_Cons nm Cons.IH [OF rest] find.simps split: if_splits) simp
qed

lemma find_loop_calls:
  assumes "\<forall>c\<in>set cs. \<forall>w. fst (GetChannelName k c w) = nm c"
  shows "calls (snd (find_loop k channel_name cs s))
           = calls s @ map Call_GetChannelName
               (takeWhile (\<lambda>c. nm c \<noteq> (YE_OK k, channel_name)) cs
                @ (case List.find (\<lambda>c. nm c = (YE_OK k, channel_name)) cs of
                     None \<Rightarrow> [] | Some c \<Rightarrow> [c]))"
  using assms
proof (induction cs arbitrary: s)
  case Nil
  then show ?case by simp
next
  case (Cons c cs)
  have nm: "fst (GetChannelName k c (world s)) = nm c"
    using Cons.prems by simp
  have rest: "\<forall>c\<in>set cs. \<forall>w. fst (GetChannelName k c w) = nm c"
    using Cons.prems by simp
  show ?case
  proof (cases "nm c = (YE_OK k, channel_name)")
    case True
    then show ?thesis
      by (simp add: find_loop_Cons nm del: find_loop.simps(2))
  next
    case False
    then show ?thesis
      by (simp add: find_loop_Cons nm Cons.IH [OF rest] del: find_loop.simps(2))
  qed
qed

lemma find_loop_no_match:
  assumes "\<forall>c\<in>set cs. \<forall>w. fst (GetChannelName k c w) \<noteq> (YE_OK k, channel_name)"
  shows "fst (find_loop k channel_name cs s) = 0"
  using assms
proof (induction cs arbitrary: s)
  case Nil
  then show ?case by simp
next
  case (Cons c cs)
  then show ?case
    by (simp add: find_loop_Cons del: find_loop.simps(2))
qed

subsection \<open>Driver lifecycle\<close>

lemma set_drivers_offline_fields:
  "calls (set_drivers_offline k ds s) = calls s @ map Call_yasdiSetDriverOffline ds"
  "initialized (set_drivers_offline k ds s) = initialized s"
  "drivers (set_drivers_offline k ds s) = drivers s"
  "driver_count (set_drivers_offline k ds s) = driver_count s"
  by (induction ds arbitrary: s) (simp_all add: native_eq split_beta)

lemma set_drivers_offline_eq:
  "set_drivers_offline k ds s =
     s\<lparr>world := fold (\<lambda>d w. snd (yasdiSetDriverOffline k d w)) ds (world s),
       calls := calls s @ map Call_yasdiSetDriverOffline ds\<rparr>"
proof (induction ds arbitrary: s)
  case Nil
  then show ?case by simp
next
  case (Cons d ds)
  show ?case
    by (simp add: native_eq split_beta Cons.IH)
qed

lemma set_drivers_online_Cons:
  "set_drivers_online k (d # ds) any_driver_online s =
     set_drivers_online k ds
       (fst (yasdiSetDriverOnline k d (snd (yasdiGetDriverName k d (uninit k) (world s))))
        \<or> any_driver_online)
       ((debug [Str ''Switching on driver: '',
                Str (snd (fst (yasdiGetDriverName k d (uninit k) (world s)))), Endl] s)
          \<lparr>world := snd (yasdiSetDriverOnline k d (snd (yasdiGetDriverName k d (uninit k) (world s)))),
           calls := calls s @ [Call_yasdiGetDriverName d, Call_yasdiSetDriverOnline d]\<rparr>)"
proof -
  have "(if b then True else a) = (b \<or> a)" for a b by simp
  then show ?thesis
    by (simp add: native_eq split_beta Let_def debug_def print_def)
qed

lemma set_drivers_online_fields:
  "initialized (snd (set_drivers_online k ds any s)) = initialized s"
  "calls (snd (set_drivers_online k ds any s))
     = calls s @ concat (map (\<lambda>d. [Call_yasdiGetDriverName d, Call_yasdiSetDriverOnline d]) ds)"
proof (induction ds arbitrary: any s)
  case Nil
  {
    case 1
    show ?case by simp
  next
    case 2
    show ?case by simp
  }
next
  case (Cons d ds)
  {
    case 1
    show ?case
      by (simp add: set_drivers_online_Cons Cons.IH(1) debug_fields del: set_drivers_online.simps(2))
  next
    case 2
    show ?case
      by (simp add: set_drivers_online_Cons Cons.IH(2) debug_fields del: set_drivers_online.simps(2))
  }
qed

lemma switch_on_length: "length (fst (switch_on k ds w)) = length ds"
  by (induction ds arbitrary: w) (simp_all add: split_beta Let_def)

lemma set_drivers_online_run:
  "fst (set_drivers_online k ds any s) = (any \<or> True \<in> set (fst (switch_on k ds (world s))))"
  "world (snd (set_drivers_online k ds any s)) = snd (switch_on k ds (world s))"
proof (induction ds arbitrary: any s)
  case Nil
  {
    case 1
    show ?case by simp
  next
    case 2
    show ?case by simp
  }
next
  case (Cons d ds)
  {
    case 1
    show ?case
      by (simp add: set_drivers_online_Cons Cons.IH(1) debug_fields split_beta Let_def
          del: set_drivers_online.simps(2)) auto
  next
    case 2
    show ?case
      by (simp add: set_drivers_online_Cons Cons.IH(2) debug_fields split_beta Let_def
          del: set_drivers_online.simps(2))
  }
qed

lemma Initialize_eq:
  assumes "yasdiMasterInitialize k (c_str path) (driver_count s) (world s) = ((r, n), w1)"
    and "yasdiMasterGetDriver k 10 w1 = (hs, w2)"
    and "s3 = debug [Str ''YASDI initialization returned: '', UInt (word_of_int r), Endl,
                     Str ''Found '', UInt n, Str '' drivers'', Endl]
                (s\<lparr>world := w1, calls := calls s @ [Call_yasdiMasterInitialize (c_str path)],
                   driver_count := n\<rparr>)"
    and "s5 = s3\<lparr>world := w2, calls := calls s3 @ [Call_yasdiMasterGetDriver 10],
                 drivers := hs, driver_count := of_nat (length hs)\<rparr>"
  shows "Initialize k [JsString path] s =
     (if n = 0 then (Inl (Error ''No YASDI drivers found''), s3)
      else if \<not> fst (set_drivers_online k hs False s5)
      then (Inl (Error ''No drivers could be set online''), snd (set_drivers_online k hs False s5))
      else (Inr (JsBoolean True), (snd (set_drivers_online k hs False s5))\<lparr>initialized := True\<rparr>))"
  using assms(1,2) unfolding assms(3,4)
  by (simp add: Initialize_def native_eq split_beta Let_def debug_fields)

lemma set_drivers_online_drivers:
  "drivers (snd (set_drivers_online k ds any s)) = drivers s"
  "driver_count (snd (set_drivers_online k ds any s)) = driver_count s"
proof (induction ds arbitrary: any s)
  case Nil
  {
    case 1
    show ?case by simp
  next
    case 2
    show ?case by simp
  }
next
  case (Cons d ds)
  {
    case 1
    show ?case
      by (simp add: set_drivers_online_Cons Cons.IH(1) debug_fields del: set_drivers_online.simps(2))
  next
    case 2
    show ?case
      by (simp add: set_drivers_online_Cons Cons.IH(2) debug_fields del: set_drivers_online.simps(2))
  }
qed

lemma Initialize_drivers_ok:
  assumes "drivers_ok s"
    and "\<forall>w. length (fst (yasdiMasterGetDriver k 10 w)) \<le> 10"
  shows "drivers_ok (snd (Initialize k info s))"
proof (cases "length info < 1 \<or> \<not> IsString (info ! 0)")
  case True
  then show ?thesis
    using assms(1) by (simp add: Initialize_def)
next
  case False
  have u: "unat (word_of_nat (length (fst (yasdiMasterGetDriver k 10 w))) :: dword)
             = length (fst (yasdiMasterGetDriver k 10 w))" for w
  proof -
    have "length (fst (yasdiMasterGetDriver k 10 w)) \<le> 10"
      using assms(2) by simp
    then show ?thesis
      by (simp add: unat_of_nat)
  qed
  show ?thesis
    using False
    by (simp add: Initialize_def native_eq split_beta Let_def debug_fields drivers_ok_def
        set_drivers_online_drivers u)
qed

lemma Shutdown_drivers_ok: "drivers_ok s \<Longrightarrow> drivers_ok (snd (Shutdown k info s))"
  by (simp add: Shutdown_def native_eq split_beta Let_def drivers_ok_def set_drivers_offline_fields)

lemma Initialize_no_handles:
  assumes "yasdiMasterInitialize k (c_str path) (driver_count s) (world s) = ((r, n), w1)"
    and "n \<noteq> 0"
    and "yasdiMasterGetDriver k 10 w1 = ([], w2)"
  shows "fst (Initialize k [JsString path] s) = Inl (Error ''No drivers could be set online'')"
  using Initialize_eq [OF assms(1,3) refl refl] assms(2) by simp

subsection \<open>Device discovery\<close>

lemma Int32Value_of_int:
  assumes "- (2 ^ 31) \<le> i" and "i < 2 ^ 31"
  shows "sint (Int32Value (Finite (real_of_int i))) = i"
proof -
  have "Int32Value (Finite (real_of_int i)) = word_of_int i"
    by simp
  moreover have "sint (word_of_int i :: dword) = i"
  proof -
    have "0 \<le> i + 2 ^ 31" "i + 2 ^ 31 < 2 ^ 32"
      using assms by simp_all
    then have "(i + 2 ^ 31) mod 2 ^ 32 = i + 2 ^ 31"
      by (rule mod_pos_pos_trivial)
    then show ?thesis
      by (simp add: int_word_sint)
  qed
  ultimately show ?thesis by simp
qed

lemma detect_labels:
  assumes "labels_distinct k"
  shows "YE_DEV_DETECT_IN_PROGRESS k \<noteq> YE_OK k" "YE_NOT_ALL_DEVS_FOUND k \<noteq> YE_OK k"
    "YE_NOT_ALL_DEVS_FOUND k \<noteq> YE_DEV_DETECT_IN_PROGRESS k"
  using assms by (auto simp add: labels_distinct_def)

lemma detect_devices_eq:
  assumes "DoStartDeviceDetection k n True (world s) = (st, w')"
  shows "detect_devices k n s =
     (st = YE_OK k,
      (debug [Str ''Trying to detect '', SInt n, Str '' devices'', Endl] s)
        \<lparr>world := w', calls := calls s @ [Call_DoStartDeviceDetection n True],
         out := out (debug [Str ''Trying to detect '', SInt n, Str '' devices'', Endl] s)
                @ (if st = YE_OK k then []
                   else if st = YE_DEV_DETECT_IN_PROGRESS k
                   then [Str ''Error: Detection in progress'', Endl]
                   else if st = YE_NOT_ALL_DEVS_FOUND k
                   then [Str ''Error: Not all devices were found'', Endl]
                   else [Str ''Error: Unknown YASDI error'', Endl])\<rparr>)"
  using assms
  by (simp add: detect_devices_def native_eq debug_fields print_def Let_def)

lemma find_char_None: "find_char c t = None \<longleftrightarrow> c \<notin> set t"
  by (induction t) auto

lemma replace_spaces_map:
  "replace_spaces t = map (\<lambda>c. if c = CHR '' '' then CHR ''_'' else c) t"
proof (induction t rule: replace_spaces.induct)
  case (1 device_name)
  let ?f = "\<lambda>c. if c = CHR '' '' then CHR ''_'' else c"
  show ?case
  proof (cases "find_char (CHR '' '') device_name")
    case None
    then have "CHR '' '' \<notin> set device_name"
      by (simp add: find_char_None)
    then have "map ?f device_name = device_name"
      by (induction device_name) auto
    then show ?thesis
      using None by (subst replace_spaces.simps) simp
  next
    case (Some pos)
    then have p: "pos < length device_name \<and> device_name ! pos = CHR '' ''"
      by (rule find_char_Some)
    have "replace_spaces device_name = replace_spaces (device_name[pos := CHR ''_''])"
      using Some by (subst replace_spaces.simps) simp
    also have "\<dots> = map ?f (device_name[pos := CHR ''_''])"
      using "1.IH" [OF Some] .
    also have "\<dots> = (map ?f device_name)[pos := CHR ''_'']"
      by (simp add: map_update)
    also have "\<dots> = map ?f device_name"
      using p by (simp add: list_update_same_conv)
    finally show ?thesis .
  qed
qed

lemma no_underscore_positions:
  assumes "CHR ''_'' \<notin> set raw" and "i < length raw"
  shows "(replace_spaces raw ! i = CHR ''_'') = (raw ! i = CHR '' '')"
proof -
  have "raw ! i \<in> set raw"
    using assms(2) by simp
  then have "raw ! i \<noteq> CHR ''_''"
    using assms(1) by auto
  then show ?thesis
    using assms(2) by (simp add: replace_spaces_map)
qed

lemma map_of_map_assign: "map_of (map_assign h n m) = (map_of m)(h \<mapsto> n)"
proof (induction m)
  case Nil
  then show ?case by simp
next
  case (Cons p m)
  obtain h' n' where p: "p = (h', n')" by (cases p)
  show ?case
    unfolding p using Cons.IH by (auto simp add: fun_upd_twist)
qed

lemma device_loop_map_of:
  assumes "\<forall>w buf. snd (fst (GetDeviceName k h buf w)) = raw"
  shows "map_of (fst (device_loop k hs namebuf device_map s)) h
           = (if h \<in> set hs then Some (replace_spaces raw) else map_of device_map h)"
proof (induction hs arbitrary: namebuf device_map s)
  case Nil
  then show ?case by simp
next
  case (Cons h' hs)
  show ?case
  proof (cases "h' = h")
    case True
    have "snd (fst (GetDeviceName k h namebuf (world s))) = raw"
      using assms by simp
    then show ?thesis
      using True by (simp add: native_eq split_beta Let_def Cons.IH map_of_map_assign)
  next
    case False
    then show ?thesis
      by (simp add: native_eq split_beta Let_def Cons.IH map_of_map_assign)
  qed
qed

subsection \<open>Polling the channels\<close>

lemma readings_length: "length (fst (readings k device_handle cs u w)) = length cs"
  by (induction cs arbitrary: u w) (simp_all add: split_beta Let_def)

lemma fetch_loop_run:
  "fst (fetch_loop k device_handle cs u data_vector s)
     = data_vector @ concat (map the_data (fst (readings k device_handle cs u (world s))))"
  "world (snd (fetch_loop k device_handle cs u data_vector s))
     = snd (readings k device_handle cs u (world s))"
  "calls (snd (fetch_loop k device_handle cs u data_vector s))
     = calls s @ concat (map (\<lambda>(c, r). calls_of_reading device_handle c r)
                           (zip cs (fst (readings k device_handle cs u (world s)))))"
proof (induction cs arbitrary: u data_vector s)
  case Nil
  {
    case 1 show ?case by simp
  next
    case 2 show ?case by simp
  next
    case 3 show ?case by simp
  }
next
  case (Cons c cs)
  {
    case 1
    show ?case
      by (simp add: native_eq split_beta Let_def read_channel_def Cons.IH(1) debug_fields)
  next
    case 2
    show ?case
      by (simp add: native_eq split_beta Let_def read_channel_def Cons.IH(2) debug_fields)
  next
    case 3
    show ?case
      by (simp add: native_eq split_beta Let_def read_channel_def Cons.IH(3) debug_fields)
  }
qed

lemma fetch_channel_data_run:
  assumes "GetChannelHandlesEx k device_handle 500 SPOTCHANNELS (world s) = (cs, w1)"
    and "readings k device_handle cs (uninit k) w1 = (rs, w2)"
  shows "fst (fetch_channel_data k device_handle s) = concat (map the_data rs)"
    and "world (snd (fetch_channel_data k device_handle s)) = w2"
    and "calls (snd (fetch_channel_data k device_handle s))
           = calls s @ Call_GetChannelHandlesEx device_handle 500 SPOTCHANNELS
               # concat (map (\<lambda>(c, r). calls_of_reading device_handle c r) (zip cs rs))"
proof -
  have e: "fetch_channel_data k device_handle s =
     (if cs = []
      then ([], debug [Str ''Could not get the channel count'', Endl]
               (s\<lparr>world := w1,
                  calls := calls s @ [Call_GetChannelHandlesEx device_handle 500 SPOTCHANNELS]\<rparr>))
      else fetch_loop k device_handle cs (uninit k) []
             (s\<lparr>world := w1,
                calls := calls s @ [Call_GetChannelHandlesEx device_handle 500 SPOTCHANNELS]\<rparr>))"
    using assms(1) by (cases cs) (simp_all add: fetch_channel_data_def native_eq)
  show "fst (fetch_channel_data k device_handle s) = concat (map the_data rs)"
    using assms(2) by (cases "cs = []") (auto simp add: e fetch_loop_run(1))
  show "world (snd (fetch_channel_data k device_handle s)) = w2"
    using assms(2) by (cases "cs = []") (auto simp add: e fetch_loop_run(2) debug_fields)
  show "calls (snd (fetch_channel_data k device_handle s))
           = calls s @ Call_GetChannelHandlesEx device_handle 500 SPOTCHANNELS
               # concat (map (\<lambda>(c, r). calls_of_reading device_handle c r) (zip cs rs))"
    using assms(2) by (cases "cs = []") (auto simp add: e fetch_loop_run(3) debug_fields)
qed

lemma all_read_data:
  assumes "\<forall>r\<in>set rs. \<exists>d. r = Read d"
  shows "map Read (concat (map the_data rs)) = rs"
  using assms by (induction rs) auto

section \<open>Operations before initialisation\<close>

text \<open>
  C1. While \<open>initialized\<close> is false, each of \<^verbatim>\<open>detectDevices\<close>, \<^verbatim>\<open>getDevices\<close>,
  \<^verbatim>\<open>getDeviceData\<close>, \<^verbatim>\<open>getChannelInfo\<close> and \<^verbatim>\<open>setChannelValue\<close> throws the error
  "YASDI not initialized", whatever its arguments, and leaves everything as it was: no
  library function is called (the list of calls and the state of the library are
  the same), nothing is printed, and the members of the wrapper keep their values.
\<close>

theorem not_initialized_no_native_call:
  assumes "\<not> initialized s"
  shows "DetectDevices k info s = (Inl (Error ''YASDI not initialized. Call initialize() first''), s)
       \<and> GetDevices k info s = (Inl (Error ''YASDI not initialized. Call initialize() first''), s)
       \<and> GetDeviceData k info s = (Inl (Error ''YASDI not initialized. Call initialize() first''), s)
       \<and> GetChannelInfo k info s = (Inl (Error ''YASDI not initialized. Call initialize() first''), s)
       \<and> SetChannelValue k info s = (Inl (Error ''YASDI not initialized. Call initialize() first''), s)"
  using assms
  by (simp add: DetectDevices_def GetDevices_def GetDeviceData_def GetChannelInfo_def
      SetChannelValue_def not_initialized_def)

theorem not_initialized_no_native_call_witness:
  "\<not> initialized (InverterWrapper [] 0 :: int session)
   \<and> DetectDevices demo [JsNumber (Finite 7), JsString ''Plimit'', JsNumber (Finite 100)]
       (InverterWrapper [] 0)
     = (Inl (Error ''YASDI not initialized. Call initialize() first''), InverterWrapper [] 0)
   \<and> SetChannelValue demo [JsNumber (Finite 7), JsString ''Plimit'', JsNumber (Finite 100)]
       (InverterWrapper [] 0)
     = (Inl (Error ''YASDI not initialized. Call initialize() first''), InverterWrapper [] 0)
   \<and> calls (snd (SetChannelValue demo [JsNumber (Finite 7), JsString ''Plimit'', JsNumber (Finite 100)]
       (InverterWrapper [] 0))) = []"
  using not_initialized_no_native_call
    [of "InverterWrapper [] 0" demo "[JsNumber (Finite 7), JsString ''Plimit'', JsNumber (Finite 100)]"]
  by (simp add: InverterWrapper_def)

section \<open>Writing a value outside the range\<close>

text \<open>
  C2. \<^verbatim>\<open>setChannelValue\<close> on an initialised wrapper, with a device handle, a channel
  name and a number \<open>v\<close>: if the lookup of the channel gives a handle other than 0, the
  range read answers \<^verbatim>\<open>YE_OK\<close> with \<open>min_value\<close> and \<open>max_value\<close>, and \<open>v < min_value\<close> or
  \<open>v > max_value\<close>, then the method returns the object with \<open>success\<close> false, the error
  "Value out of range", the code \<^verbatim>\<open>YE_VALUE_NOT_VALID\<close> and a \<open>validRange\<close> of exactly
  the two numbers read. The range read is the last call to the library, and the calls
  that write to a device are those made before the method was called: the library's
  write is not invoked.
\<close>

theorem out_of_range_rejected_locally:
  assumes "initialized s"
    and "find_channel_handle k (Int32Value dev) channel_name s = (channel_handle, s1)"
    and "channel_handle \<noteq> 0"
    and "GetChannelValRange k channel_handle (world s1) = ((YE_OK k, min_value, max_value), w2)"
    and "dless v min_value \<or> dless max_value v"
  shows "fst (SetChannelValue k [JsNumber dev, JsString channel_name, JsNumber v] s)
           = Inr (JsObject [(''success'', JsBoolean False),
                            (''error'', JsString ''Value out of range''),
                            (''code'', number_of_int (YE_VALUE_NOT_VALID k)),
                            (''validRange'', JsObject [(''min'', JsNumber min_value),
                                                       (''max'', JsNumber max_value)])])
       \<and> filter is_write (calls (snd (SetChannelValue k [JsNumber dev, JsString channel_name, JsNumber v] s)))
           = filter is_write (calls s)
       \<and> calls (snd (SetChannelValue k [JsNumber dev, JsString channel_name, JsNumber v] s))
           = calls s1 @ [Call_GetChannelValRange channel_handle]"
proof -
  have w: "filter is_write (calls s1) = filter is_write (calls s)"
    using find_channel_handle_writes [of k "Int32Value dev" channel_name s] assms(2) by simp
  show ?thesis
    using assms w
    by (auto simp add: SetChannelValue_def native_eq debug_fields)
qed

theorem out_of_range_rejected_locally_witness:
  "initialized (ready 0)
   \<and> fst (find_channel_handle demo (Int32Value (Finite 7)) ''Plimit'' (ready 0)) = 20
   \<and> dless (Finite 2500) (Finite 3000)
   \<and> SetChannelValue demo [JsNumber (Finite 7), JsString ''Plimit'', JsNumber (Finite 3000)] (ready 0)
      = (Inr (JsObject [(''success'', JsBoolean False),
                          (''error'', JsString ''Value out of range''),
                          (''code'', JsNumber (Finite (-4))),
                          (''validRange'', JsObject [(''min'', JsNumber (Finite 0)),
                                                     (''max'', JsNumber (Finite 2500))])]),
         (ready 0)\<lparr>calls := [Call_GetChannelHandlesEx 7 500 ALLCHANNELS, Call_GetChannelName 10,
                                 Call_GetChannelName 11, Call_GetChannelName 12, Call_GetChannelName 20,
                                 Call_GetChannelValRange 20]\<rparr>)"
  using out_of_range_rejected_locally [of "ready 0" demo "Finite 7" "''Plimit''" 20
      "snd (find_channel_handle demo 7 ''Plimit'' (ready 0))" "Finite 0" "Finite 2500" 0 "Finite 3000"]
  by (simp add: find_channel_handle_def demo_fields SetChannelValue_def native_eq debug_def
      number_of_int_def ready_def)

section \<open>Shutdown\<close>

text \<open>
  C3. \<^verbatim>\<open>shutdown\<close> returns true in every state. When \<open>initialized\<close> is false it changes
  nothing and calls no library function. When \<open>initialized\<close> is true it applies
  \<^verbatim>\<open>yasdiSetDriverOffline\<close> to each of the \<open>driver_count\<close> drivers, one after the other
  (the function returns nothing, so no failure can stop the loop), then
  \<^verbatim>\<open>yasdiMasterShutdown\<close>, and clears \<open>initialized\<close>: the state of the library afterwards
  is the one these calls leave, the calls are logged in this order, and nothing else
  changes. A second \<^verbatim>\<open>shutdown\<close> right after the first returns true as well and changes
  nothing.
\<close>

theorem shutdown_idempotent:
  "(\<not> initialized s \<longrightarrow> Shutdown k info s = (Inr (JsBoolean True), s))
   \<and> (initialized s \<longrightarrow>
        Shutdown k info s =
          (Inr (JsBoolean True),
           s\<lparr>initialized := False,
             world := snd (yasdiMasterShutdown k
                        (fold (\<lambda>d w. snd (yasdiSetDriverOffline k d w))
                           (take (unat (driver_count s)) (drivers s)) (world s))),
             calls := calls s
                      @ map Call_yasdiSetDriverOffline (take (unat (driver_count s)) (drivers s))
                      @ [Call_yasdiMasterShutdown]\<rparr>))
   \<and> fst (Shutdown k info' (snd (Shutdown k info s))) = Inr (JsBoolean True)
   \<and> snd (Shutdown k info' (snd (Shutdown k info s))) = snd (Shutdown k info s)"
proof -
  have a: "\<not> initialized s \<longrightarrow> Shutdown k info s = (Inr (JsBoolean True), s)"
    by (simp add: Shutdown_def)
  have b: "initialized s \<longrightarrow>
        Shutdown k info s =
          (Inr (JsBoolean True),
           s\<lparr>initialized := False,
             world := snd (yasdiMasterShutdown k
                        (fold (\<lambda>d w. snd (yasdiSetDriverOffline k d w))
                           (take (unat (driver_count s)) (drivers s)) (world s))),
             calls := calls s
                      @ map Call_yasdiSetDriverOffline (take (unat (driver_count s)) (drivers s))
                      @ [Call_yasdiMasterShutdown]\<rparr>)"
    by (simp add: Shutdown_def native_eq split_beta Let_def set_drivers_offline_eq)
  have off: "\<not> initialized (snd (Shutdown k info s))"
    using a b by (cases "initialized s") simp_all
  have c: "Shutdown k info' (snd (Shutdown k info s)) = (Inr (JsBoolean True), snd (Shutdown k info s))"
    using off by (simp add: Shutdown_def)
  show ?thesis
    using a b c by simp
qed

theorem shutdown_idempotent_witness:
  "initialized (ready 0)
   \<and> Shutdown counting [] (ready 0)
       = (Inr (JsBoolean True),
          (ready 0)\<lparr>initialized := False, world := 102,
                    calls := [Call_yasdiSetDriverOffline 1, Call_yasdiSetDriverOffline 2,
                              Call_yasdiMasterShutdown]\<rparr>)
   \<and> \<not> initialized (InverterWrapper [] 0 :: int session)
   \<and> Shutdown counting [] (InverterWrapper [] 0) = (Inr (JsBoolean True), InverterWrapper [] 0)
   \<and> Shutdown counting [] (snd (Shutdown counting [] (ready 0)))
       = (Inr (JsBoolean True), snd (Shutdown counting [] (ready 0)))"
proof -
  have r1: "Shutdown counting [] (ready 0)
       = (Inr (JsBoolean True),
          (ready 0)\<lparr>initialized := False, world := 102,
                    calls := [Call_yasdiSetDriverOffline 1, Call_yasdiSetDriverOffline 2,
                              Call_yasdiMasterShutdown]\<rparr>)"
    by (simp add: Shutdown_def native_eq counting_def demo_def ready_def)
  have i1: "initialized (ready 0)"
    by (simp add: ready_def)
  have i2: "\<not> initialized (InverterWrapper [] 0 :: int session)"
    by (simp add: InverterWrapper_def)
  note t1 = shutdown_idempotent [of "ready 0" counting "[]" "[]"]
  note t2 = shutdown_idempotent [of "InverterWrapper [] 0" counting "[]" "[]"]
  have r2: "Shutdown counting [] (InverterWrapper [] 0) = (Inr (JsBoolean True), InverterWrapper [] 0)"
    using t2 i2 by simp
  have r3: "Shutdown counting [] (snd (Shutdown counting [] (ready 0)))
       = (Inr (JsBoolean True), snd (Shutdown counting [] (ready 0)))"
    using t1 by (simp add: prod_eq_iff)
  show ?thesis
    using i1 r1 i2 r2 r3 by simp
qed

section \<open>Initialisation\<close>

text \<open>
  C4, as the code has it. \<^verbatim>\<open>initialize\<close> with a configuration path. Let \<open>n\<close> be the
  number of drivers that \<^verbatim>\<open>yasdiMasterInitialize\<close> reports, \<open>hs\<close> the handles that
  \<^verbatim>\<open>yasdiMasterGetDriver\<close> stores, and \<open>answers\<close> what \<^verbatim>\<open>yasdiSetDriverOnline\<close> answers for
  the drivers of \<open>hs\<close> when they are switched on in order. If \<open>n\<close> is 0 the method throws
  "No YASDI drivers found" after that one call. Otherwise it enumerates, asks every
  driver of \<open>hs\<close> once, and returns true with \<open>initialized\<close> set if one answer is true; if
  none is, also when \<open>hs\<close> is empty, it throws "No drivers could be set online". It
  returns true only if \<open>n\<close> is not 0, \<open>hs\<close> is not empty and a driver of \<open>hs\<close> went online.
  On a failure \<open>initialized\<close> keeps its value.
\<close>

theorem initialize_outcomes:
  assumes "yasdiMasterInitialize k (c_str path) (driver_count s) (world s) = ((r, n), w1)"
    and "yasdiMasterGetDriver k 10 w1 = (hs, w2)"
    and "switch_on k hs w2 = (answers, w3)"
    and "Initialize k [JsString path] s = (res, s')"
  shows "(n = 0 \<longrightarrow>
            res = Inl (Error ''No YASDI drivers found'')
            \<and> initialized s' = initialized s
            \<and> world s' = w1
            \<and> calls s' = calls s @ [Call_yasdiMasterInitialize (c_str path)])
       \<and> (n \<noteq> 0 \<longrightarrow>
            world s' = w3
            \<and> calls s' = calls s
                 @ [Call_yasdiMasterInitialize (c_str path), Call_yasdiMasterGetDriver 10]
                 @ concat (map (\<lambda>d. [Call_yasdiGetDriverName d, Call_yasdiSetDriverOnline d]) hs)
            \<and> drivers s' = hs
            \<and> driver_count s' = of_nat (length hs))
       \<and> (n \<noteq> 0 \<and> True \<in> set answers \<longrightarrow> res = Inr (JsBoolean True) \<and> initialized s')
       \<and> (n \<noteq> 0 \<and> True \<notin> set answers \<longrightarrow>
            res = Inl (Error ''No drivers could be set online'')
            \<and> initialized s' = initialized s)
       \<and> (res = Inr (JsBoolean True) \<longrightarrow> n \<noteq> 0 \<and> hs \<noteq> [] \<and> True \<in> set answers)
       \<and> length answers = length hs"
proof -
  define s3 where "s3 = debug [Str ''YASDI initialization returned: '', UInt (word_of_int r), Endl,
                     Str ''Found '', UInt n, Str '' drivers'', Endl]
                (s\<lparr>world := w1, calls := calls s @ [Call_yasdiMasterInitialize (c_str path)],
                   driver_count := n\<rparr>)"
  define s5 where "s5 = s3\<lparr>world := w2, calls := calls s3 @ [Call_yasdiMasterGetDriver 10],
                 drivers := hs, driver_count := of_nat (length hs)\<rparr>"
  define on where "on = fst (set_drivers_online k hs False s5)"
  define s6 where "s6 = snd (set_drivers_online k hs False s5)"
  have e0: "(res, s') =
     (if n = 0 then (Inl (Error ''No YASDI drivers found''), s3)
      else if \<not> on then (Inl (Error ''No drivers could be set online''), s6)
      else (Inr (JsBoolean True), s6\<lparr>initialized := True\<rparr>))"
    using Initialize_eq [OF assms(1,2) s3_def s5_def] assms(4) by (simp add: on_def s6_def)
  have e: "res = (if n = 0 then Inl (Error ''No YASDI drivers found'')
                  else if \<not> on then Inl (Error ''No drivers could be set online'')
                  else Inr (JsBoolean True))"
    "s' = (if n = 0 then s3 else if \<not> on then s6 else s6\<lparr>initialized := True\<rparr>)"
    using e0 by (auto split: if_splits)
  have f3: "initialized s3 = initialized s" "world s3 = w1"
    "calls s3 = calls s @ [Call_yasdiMasterInitialize (c_str path)]"
    by (simp_all add: s3_def debug_fields)
  have w5: "world s5 = w2"
    by (simp add: s5_def)
  have on: "on = (True \<in> set answers)"
    using set_drivers_online_run(1) [of k hs False s5] assms(3) by (simp add: on_def w5)
  have f6: "initialized s6 = initialized s" "world s6 = w3"
    "calls s6 = calls s
       @ [Call_yasdiMasterInitialize (c_str path), Call_yasdiMasterGetDriver 10]
       @ concat (map (\<lambda>d. [Call_yasdiGetDriverName d, Call_yasdiSetDriverOnline d]) hs)"
    "drivers s6 = hs" "driver_count s6 = of_nat (length hs)"
    using set_drivers_online_run(2) [of k hs False s5] assms(3)
    by (simp_all add: s6_def set_drivers_online_fields set_drivers_online_drivers s5_def f3 w5)
  have len: "length answers = length hs"
    using switch_on_length [of k hs w2] assms(3) by simp
  have c1: "n = 0 \<longrightarrow>
            res = Inl (Error ''No YASDI drivers found'')
            \<and> initialized s' = initialized s
            \<and> world s' = w1
            \<and> calls s' = calls s @ [Call_yasdiMasterInitialize (c_str path)]"
    using e f3 by simp
  have c2: "n \<noteq> 0 \<longrightarrow>
            world s' = w3
            \<and> calls s' = calls s
                 @ [Call_yasdiMasterInitialize (c_str path), Call_yasdiMasterGetDriver 10]
                 @ concat (map (\<lambda>d. [Call_yasdiGetDriverName d, Call_yasdiSetDriverOnline d]) hs)
            \<and> drivers s' = hs
            \<and> driver_count s' = of_nat (length hs)"
    using e(2) f6 by simp
  have c3: "n \<noteq> 0 \<and> True \<in> set answers \<longrightarrow> res = Inr (JsBoolean True) \<and> initialized s'"
    using e on by simp
  have c4: "n \<noteq> 0 \<and> True \<notin> set answers \<longrightarrow>
            res = Inl (Error ''No drivers could be set online'')
            \<and> initialized s' = initialized s"
    using e on f6 by simp
  have c5: "res = Inr (JsBoolean True) \<longrightarrow> n \<noteq> 0 \<and> hs \<noteq> [] \<and> True \<in> set answers"
  proof
    assume "res = Inr (JsBoolean True)"
    then have "n \<noteq> 0 \<and> True \<in> set answers"
      using e(1) on by (simp split: if_splits)
    moreover from this have "hs \<noteq> []"
      using len by auto
    ultimately show "n \<noteq> 0 \<and> hs \<noteq> [] \<and> True \<in> set answers" by simp
  qed
  show ?thesis
    by (intro conjI) (rule c1 c2 c3 c4 c5 len)+
qed

theorem initialize_outcomes_witness:
  "yasdiMasterInitialize demo (c_str ''yasdi.ini'') 0 0 = ((0, 2), 0)
   \<and> yasdiMasterGetDriver demo 10 0 = ([1, 2], 0)
   \<and> switch_on demo [1, 2] 0 = ([True, False], 0)
   \<and> Initialize demo [JsString ''yasdi.ini''] (InverterWrapper [] 0)
       = (Inr (JsBoolean True),
          (ready 0)\<lparr>calls := [Call_yasdiMasterInitialize ''yasdi.ini'', Call_yasdiMasterGetDriver 10,
                              Call_yasdiGetDriverName 1, Call_yasdiSetDriverOnline 1,
                              Call_yasdiGetDriverName 2, Call_yasdiSetDriverOnline 2]\<rparr>)
   \<and> yasdiMasterInitialize demo (c_str ''none.ini'') 0 0 = ((-1, 0), 0)
   \<and> fst (Initialize demo [JsString ''none.ini''] (InverterWrapper [] 0))
       = Inl (Error ''No YASDI drivers found'')
   \<and> \<not> initialized (snd (Initialize demo [JsString ''none.ini''] (InverterWrapper [] 0)))
   \<and> calls (snd (Initialize demo [JsString ''none.ini''] (InverterWrapper [] 0)))
       = [Call_yasdiMasterInitialize ''none.ini'']
   \<and> switch_on once [1, 2] 0 = ([False, False], 2)
   \<and> fst (Initialize once [JsString ''yasdi.ini''] (InverterWrapper [] 0))
       = Inl (Error ''No drivers could be set online'')
   \<and> \<not> initialized (snd (Initialize once [JsString ''yasdi.ini''] (InverterWrapper [] 0)))
   \<and> world (snd (Initialize once [JsString ''yasdi.ini''] (InverterWrapper [] 0))) = 2"
proof -
  let ?s = "InverterWrapper [] 0 :: int session"
  have c: "c_str ''yasdi.ini'' = ''yasdi.ini''" "c_str ''none.ini'' = ''none.ini''"
    by (simp_all add: c_str_def)
  have f: "driver_count ?s = 0" "world ?s = 0" "\<not> initialized ?s" "calls ?s = []"
    by (simp_all add: InverterWrapper_def)
  have i1: "yasdiMasterInitialize demo (c_str ''yasdi.ini'') (driver_count ?s) (world ?s) = ((0, 2), 0)"
    by (simp add: c f demo_def)
  have i2: "yasdiMasterInitialize demo (c_str ''none.ini'') (driver_count ?s) (world ?s) = ((-1, 0), 0)"
    by (simp add: c f demo_def)
  have i3: "yasdiMasterInitialize once (c_str ''yasdi.ini'') (driver_count ?s) (world ?s) = ((0, 2), 0)"
    by (simp add: c f once_def demo_def)
  have g: "yasdiMasterGetDriver demo 10 0 = ([1, 2], 0)" "yasdiMasterGetDriver once 10 0 = ([1, 2], 0)"
    by (simp_all add: once_def demo_def)
  have a1: "switch_on demo [1, 2] 0 = ([True, False], 0)"
    by (simp add: demo_def)
  have a3: "switch_on once [1, 2] 0 = ([False, False], 2)"
    by (simp add: once_def demo_def)
  have r1: "Initialize demo [JsString ''yasdi.ini''] ?s
       = (Inr (JsBoolean True),
          (ready 0)\<lparr>calls := [Call_yasdiMasterInitialize ''yasdi.ini'', Call_yasdiMasterGetDriver 10,
                              Call_yasdiGetDriverName 1, Call_yasdiSetDriverOnline 1,
                              Call_yasdiGetDriverName 2, Call_yasdiSetDriverOnline 2]\<rparr>)"
    by (simp add: Initialize_def native_eq debug_def c InverterWrapper_def demo_def ready_def)
  note t1 = initialize_outcomes [OF i1 g(1) a1 prod.collapse [symmetric]]
  note t2 = initialize_outcomes [OF i2 g(1) a1 prod.collapse [symmetric]]
  note t3 = initialize_outcomes [OF i3 g(2) a3 prod.collapse [symmetric]]
  have r2: "fst (Initialize demo [JsString ''none.ini''] ?s) = Inl (Error ''No YASDI drivers found'')"
    "\<not> initialized (snd (Initialize demo [JsString ''none.ini''] ?s))"
    "calls (snd (Initialize demo [JsString ''none.ini''] ?s)) = [Call_yasdiMasterInitialize ''none.ini'']"
    using t2 f by (simp_all add: c)
  have r3: "fst (Initialize once [JsString ''yasdi.ini''] ?s) = Inl (Error ''No drivers could be set online'')"
    "\<not> initialized (snd (Initialize once [JsString ''yasdi.ini''] ?s))"
    "world (snd (Initialize once [JsString ''yasdi.ini''] ?s)) = 2"
    using t3 f by simp_all
  show ?thesis
    using i1 i2 g(1) a1 a3 r1 t1 r2 r3 by (simp add: f)
qed

text \<open>
  C4 as it is written fails where the library reports drivers and then enumerates
  none: no driver is enumerated, and the error is not "No YASDI drivers found".
\<close>

theorem initialize_no_handles_counterexample:
  "fst (yasdiMasterInitialize no_handles (c_str ''yasdi.ini'') 0 0) = (0, 2)
   \<and> fst (yasdiMasterGetDriver no_handles 10 0) = []
   \<and> fst (Initialize no_handles [JsString ''yasdi.ini''] (InverterWrapper [] 0))
       = Inl (Error ''No drivers could be set online'')
   \<and> fst (Initialize no_handles [JsString ''yasdi.ini''] (InverterWrapper [] 0))
       \<noteq> Inl (Error ''No YASDI drivers found'')"
proof -
  have c: "c_str ''yasdi.ini'' = ''yasdi.ini''"
    by (simp add: c_str_def)
  have r: "fst (Initialize no_handles [JsString ''yasdi.ini''] (InverterWrapper [] 0))
       = Inl (Error ''No drivers could be set online'')"
    by (simp add: Initialize_def native_eq debug_def c InverterWrapper_def no_handles_def demo_def)
  show ?thesis
    using r by (simp add: c no_handles_def demo_def)
qed

section \<open>Device detection\<close>

text \<open>
  C5. \<^verbatim>\<open>detectDevices\<close> on an initialised wrapper asks \<^verbatim>\<open>DoStartDeviceDetection\<close>, once
  and blocking, for \<open>n\<close> devices: the first argument when it is a number (as
  \<^verbatim>\<open>Int32Value\<close> reads it: an integer in the range of \<^verbatim>\<open>int\<close> is itself), and 1
  otherwise, also when there is no argument. It never throws: it returns true for the
  status \<^verbatim>\<open>YE_OK\<close> and false for every other status, and prints one of three messages
  for the failures: detection in progress, not all devices found, and unknown error
  for any other status.
\<close>

theorem detect_devices_outcomes:
  assumes "initialized s"
    and "labels_distinct k"
    and "n = (case info of JsNumber d # rest \<Rightarrow> sint (Int32Value d) | _ \<Rightarrow> 1)"
    and "DoStartDeviceDetection k n True (world s) = (st, w')"
    and "DetectDevices k info s = (r, s')"
    and "dbg = out (debug [Str ''Trying to detect '', SInt n, Str '' devices'', Endl] s)"
  shows "calls s' = calls s @ [Call_DoStartDeviceDetection n True]
       \<and> world s' = w'
       \<and> (\<exists>b. r = Inr (JsBoolean b))
       \<and> (st = YE_OK k \<longrightarrow> r = Inr (JsBoolean True) \<and> out s' = dbg)
       \<and> (st = YE_DEV_DETECT_IN_PROGRESS k \<longrightarrow>
            r = Inr (JsBoolean False)
            \<and> out s' = dbg @ [Str ''Error: Detection in progress'', Endl])
       \<and> (st = YE_NOT_ALL_DEVS_FOUND k \<longrightarrow>
            r = Inr (JsBoolean False)
            \<and> out s' = dbg @ [Str ''Error: Not all devices were found'', Endl])
       \<and> (st \<notin> {YE_OK k, YE_DEV_DETECT_IN_PROGRESS k, YE_NOT_ALL_DEVS_FOUND k} \<longrightarrow>
            r = Inr (JsBoolean False)
            \<and> out s' = dbg @ [Str ''Error: Unknown YASDI error'', Endl])
       \<and> (info = [] \<longrightarrow> n = 1)
       \<and> (\<forall>i rest. info = JsNumber (Finite (real_of_int i)) # rest
              \<and> - (2 ^ 31) \<le> i \<and> i < 2 ^ 31 \<longrightarrow> n = i)"
proof -
  have n: "(if length info > 0 \<and> IsNumber (info ! 0)
            then sint (Int32Value (DoubleValue (info ! 0))) else 1) = n"
  proof (cases info)
    case Nil
    then show ?thesis using assms(3) by simp
  next
    case (Cons a rest)
    then show ?thesis using assms(3) by (cases a) simp_all
  qed
  have d: "DetectDevices k info s = (Inr (JsBoolean (fst (detect_devices k n s))), snd (detect_devices k n s))"
    using assms(1) n by (simp add: DetectDevices_def split_beta)
  note e = detect_devices_eq [OF assms(4)]
  have r: "r = Inr (JsBoolean (st = YE_OK k))"
    using d e assms(5) by simp
  have s': "s' = snd (detect_devices k n s)"
    using d assms(5) by simp
  have c: "calls s' = calls s @ [Call_DoStartDeviceDetection n True]"
    unfolding s' e by simp
  have w: "world s' = w'"
    unfolding s' e by simp
  have o: "out s' = dbg @ (if st = YE_OK k then []
                   else if st = YE_DEV_DETECT_IN_PROGRESS k
                   then [Str ''Error: Detection in progress'', Endl]
                   else if st = YE_NOT_ALL_DEVS_FOUND k
                   then [Str ''Error: Not all devices were found'', Endl]
                   else [Str ''Error: Unknown YASDI error'', Endl])"
    unfolding s' e assms(6) by simp
  note l = detect_labels [OF assms(2)]
  have c1: "st = YE_OK k \<longrightarrow> r = Inr (JsBoolean True) \<and> out s' = dbg"
    using r o by simp
  have c2: "st = YE_DEV_DETECT_IN_PROGRESS k \<longrightarrow>
            r = Inr (JsBoolean False)
            \<and> out s' = dbg @ [Str ''Error: Detection in progress'', Endl]"
    using r o l by simp
  have c3: "st = YE_NOT_ALL_DEVS_FOUND k \<longrightarrow>
            r = Inr (JsBoolean False)
            \<and> out s' = dbg @ [Str ''Error: Not all devices were found'', Endl]"
    using r o l by simp
  have c4: "st \<notin> {YE_OK k, YE_DEV_DETECT_IN_PROGRESS k, YE_NOT_ALL_DEVS_FOUND k} \<longrightarrow>
            r = Inr (JsBoolean False)
            \<and> out s' = dbg @ [Str ''Error: Unknown YASDI error'', Endl]"
    using r o by simp
  have ex: "\<exists>b. r = Inr (JsBoolean b)"
    using r by simp
  have c5: "info = [] \<longrightarrow> n = 1"
    using assms(3) by simp
  have c6: "\<forall>i rest. info = JsNumber (Finite (real_of_int i)) # rest
              \<and> - (2 ^ 31) \<le> i \<and> i < 2 ^ 31 \<longrightarrow> n = i"
  proof (intro allI impI)
    fix i rest
    assume a: "info = JsNumber (Finite (real_of_int i)) # rest \<and> - (2 ^ 31) \<le> i \<and> i < 2 ^ 31"
    then have "n = sint (Int32Value (Finite (real_of_int i)))"
      using assms(3) by simp
    then show "n = i"
      using a Int32Value_of_int [of i] by simp
  qed
  show ?thesis
    by (intro conjI) (rule c w ex c1 c2 c3 c4 c5 c6)+
qed

theorem detect_devices_outcomes_witness:
  "initialized (ready 0) \<and> labels_distinct demo
   \<and> DoStartDeviceDetection demo 1 True (world (ready 0)) = (YE_OK demo, 0)
   \<and> DetectDevices demo [] (ready 0)
       = (Inr (JsBoolean True), (ready 0)\<lparr>calls := [Call_DoStartDeviceDetection 1 True]\<rparr>)
   \<and> DoStartDeviceDetection demo 3 True (world (ready 0)) = (YE_NOT_ALL_DEVS_FOUND demo, 0)
   \<and> DetectDevices demo [JsNumber (Finite 3)] (ready 0)
       = (Inr (JsBoolean False),
          (ready 0)\<lparr>calls := [Call_DoStartDeviceDetection 3 True],
                    out := [Str ''Error: Not all devices were found'', Endl]\<rparr>)"
proof -
  have a: "initialized (ready 0)" by (simp add: ready_def)
  have d1: "DoStartDeviceDetection demo 1 True (world (ready 0)) = (YE_OK demo, 0)"
    by (simp add: demo_def ready_def)
  have d3: "DoStartDeviceDetection demo 3 True (world (ready 0)) = (YE_NOT_ALL_DEVS_FOUND demo, 0)"
    by (simp add: demo_def ready_def)
  have n3: "3 = (case [JsNumber (Finite 3)] of JsNumber d # rest \<Rightarrow> sint (Int32Value d) | _ \<Rightarrow> 1)"
    by simp
  have dbg: "[] = out (debug [Str ''Trying to detect '', SInt n, Str '' devices'', Endl] (ready 0))" for n
    by (simp add: debug_def ready_def)
  have r1: "DetectDevices demo [] (ready 0)
       = (Inr (JsBoolean True), (ready 0)\<lparr>calls := [Call_DoStartDeviceDetection 1 True]\<rparr>)"
    by (simp add: DetectDevices_def detect_devices_def native_eq debug_def demo_def ready_def)
  have r3: "DetectDevices demo [JsNumber (Finite 3)] (ready 0)
       = (Inr (JsBoolean False),
          (ready 0)\<lparr>calls := [Call_DoStartDeviceDetection 3 True],
                    out := [Str ''Error: Not all devices were found'', Endl]\<rparr>)"
    by (simp add: DetectDevices_def detect_devices_def native_eq debug_def print_def demo_def ready_def)
  note t = detect_devices_outcomes [OF a labels_distinct_demo n3 d3 r3 dbg]
  show ?thesis
    using a labels_distinct_demo d1 d3 r1 r3 t by simp
qed

section \<open>Polling a device\<close>

text \<open>
  C6. \<^verbatim>\<open>fetch_channel_data\<close> on a device whose enumeration stores the spot channels
  \<open>cs\<close>, where \<open>rs\<close> are the answers of the library for these channels during the poll.
  If every channel but the one at position \<open>j\<close> is read, and the name or the value of
  the channel at \<open>j\<close> is not, then the result holds the data read of the other channels,
  in their order, and nothing else: \<open>length cs - 1\<close> entries. When the value of channel
  \<open>j\<close> could not be read and the names read are distinct, no entry has its name. Each
  channel is read once: the calls are the enumeration and the calls of each answer,
  and the library is left in the state after the last of them. \<^verbatim>\<open>getDeviceData\<close> on
  that device returns an object, throws nothing and leaves the same state.
\<close>

theorem fetch_skips_failed_channel:
  assumes "GetChannelHandlesEx k device_handle 500 SPOTCHANNELS (world s) = (cs, w1)"
    and "readings k device_handle cs (uninit k) w1 = (rs, w2)"
    and "j < length cs"
    and "\<forall>i<length cs. i \<noteq> j \<longrightarrow> (\<exists>d. rs ! i = Read d)"
    and "rs ! j = NameFailed \<or> (\<exists>n. rs ! j = ValueFailed n)"
    and "fetch_channel_data k device_handle s = (data, s')"
  shows "map Read data = take j rs @ drop (Suc j) rs
       \<and> length data = length cs - 1
       \<and> (\<forall>n. rs ! j = ValueFailed n \<and> distinct (map reading_name rs) \<longrightarrow>
            n \<notin> set (map ch_name data))
       \<and> world s' = w2
       \<and> calls s' = calls s @ Call_GetChannelHandlesEx device_handle 500 SPOTCHANNELS
                      # concat (map (\<lambda>(c, r). calls_of_reading device_handle c r) (zip cs rs))
       \<and> (initialized s \<and> Int32Value d = device_handle \<longrightarrow>
            (\<exists>ps. GetDeviceData k [JsNumber d] s = (Inr (JsObject ps), s')))"
proof -
  have len: "length rs = length cs"
    using readings_length [of k device_handle cs "uninit k" w1] assms(2) by simp
  have j: "j < length rs"
    using assms(3) len by simp
  have split: "rs = take j rs @ rs ! j # drop (Suc j) rs"
    using j by (rule id_take_nth_drop)
  have before: "\<forall>r\<in>set (take j rs). \<exists>d. r = Read d"
  proof
    fix r assume "r \<in> set (take j rs)"
    then obtain i where "i < length (take j rs)" "r = take j rs ! i"
      by (auto simp add: in_set_conv_nth)
    then show "\<exists>d. r = Read d"
      using assms(4) j len by simp
  qed
  have after: "\<forall>r\<in>set (drop (Suc j) rs). \<exists>d. r = Read d"
  proof
    fix r assume "r \<in> set (drop (Suc j) rs)"
    then obtain i where "i < length (drop (Suc j) rs)" "r = drop (Suc j) rs ! i"
      by (auto simp add: in_set_conv_nth)
    then show "\<exists>d. r = Read d"
      using assms(4) j len by simp
  qed
  have others: "\<forall>r\<in>set (take j rs @ drop (Suc j) rs). \<exists>d. r = Read d"
    using before after by auto
  have none: "the_data (rs ! j) = []"
    using assms(5) by auto
  have data: "data = concat (map the_data rs)"
    using fetch_channel_data_run(1) [OF assms(1,2)] assms(6) by simp
  have "concat (map the_data rs)
          = concat (map the_data (take j rs @ rs ! j # drop (Suc j) rs))"
    using split by simp
  also have "\<dots> = concat (map the_data (take j rs @ drop (Suc j) rs))"
    using none by simp
  finally have data': "data = concat (map the_data (take j rs @ drop (Suc j) rs))"
    using data by simp
  have c1: "map Read data = take j rs @ drop (Suc j) rs"
    unfolding data' using others by (rule all_read_data)
  have "length (map Read data) = length cs - 1"
    unfolding c1 using j len by simp
  then have c2: "length data = length cs - 1"
    by simp
  have names: "map ch_name data = map reading_name (take j rs @ drop (Suc j) rs)"
  proof -
    have "map reading_name (map Read data) = map ch_name data"
      by simp
    then show ?thesis
      using c1 by simp
  qed
  have c3: "\<forall>n. rs ! j = ValueFailed n \<and> distinct (map reading_name rs) \<longrightarrow>
            n \<notin> set (map ch_name data)"
  proof (intro allI impI)
    fix n
    assume a: "rs ! j = ValueFailed n \<and> distinct (map reading_name rs)"
    then have "distinct (map reading_name (take j rs @ rs ! j # drop (Suc j) rs))"
      using split by simp
    then have "reading_name (rs ! j) \<notin> set (map ch_name data)"
      unfolding names by auto
    then show "n \<notin> set (map ch_name data)"
      using a by simp
  qed
  have c4: "world s' = w2"
    using fetch_channel_data_run(2) [OF assms(1,2)] assms(6) by simp
  have c5: "calls s' = calls s @ Call_GetChannelHandlesEx device_handle 500 SPOTCHANNELS
                      # concat (map (\<lambda>(c, r). calls_of_reading device_handle c r) (zip cs rs))"
    using fetch_channel_data_run(3) [OF assms(1,2)] assms(6) by simp
  have c6: "initialized s \<and> Int32Value d = device_handle \<longrightarrow>
            (\<exists>ps. GetDeviceData k [JsNumber d] s = (Inr (JsObject ps), s'))"
    using assms(6) by (simp add: GetDeviceData_def split_beta Let_def)
  show ?thesis
    by (intro conjI) (rule c1 c2 c3 c4 c5 c6)+
qed

theorem fetch_skips_failed_channel_witness:
  "GetChannelHandlesEx flaky 7 500 SPOTCHANNELS (world (ready 0)) = ([10, 11, 12], 0)
   \<and> readings flaky 7 [10, 11, 12] (uninit flaky) 0
       = ([Read \<lparr>ch_name = ''Pac'', ch_units = ''W'', ch_value = ''230'', ch_numericValue = Finite 230\<rparr>,
           ValueFailed ''Uac'',
           Read \<lparr>ch_name = ''Fac'', ch_units = ''Hz'', ch_value = ''230'', ch_numericValue = Finite 230\<rparr>],
          3)
   \<and> fetch_channel_data flaky 7 (ready 0)
       = ([\<lparr>ch_name = ''Pac'', ch_units = ''W'', ch_value = ''230'', ch_numericValue = Finite 230\<rparr>,
           \<lparr>ch_name = ''Fac'', ch_units = ''Hz'', ch_value = ''230'', ch_numericValue = Finite 230\<rparr>],
          (ready 0)\<lparr>world := 3,
                    calls := [Call_GetChannelHandlesEx 7 500 SPOTCHANNELS,
                              Call_GetChannelName 10, Call_GetChannelUnit 10, Call_GetChannelValue 10 7 5,
                              Call_GetChannelName 11, Call_GetChannelUnit 11, Call_GetChannelValue 11 7 5,
                              Call_GetChannelName 12, Call_GetChannelUnit 12,
                              Call_GetChannelValue 12 7 5]\<rparr>)
   \<and> ''Uac'' \<notin> set (map ch_name (fst (fetch_channel_data flaky 7 (ready 0))))
   \<and> fst (GetDeviceData flaky [JsNumber (Finite 7)] (ready 0))
       = Inr (JsObject
           [(''timestamp'', JsString []),
            (''Pac'', JsObject [(''value'', JsString ''230''), (''units'', JsString ''W''),
                                (''numericValue'', JsNumber (Finite 230))]),
            (''Fac'', JsObject [(''value'', JsString ''230''), (''units'', JsString ''Hz''),
                                (''numericValue'', JsNumber (Finite 230))])])"
proof -
  let ?rs = "[Read \<lparr>ch_name = ''Pac'', ch_units = ''W'', ch_value = ''230'', ch_numericValue = Finite 230\<rparr>,
           ValueFailed ''Uac'',
           Read \<lparr>ch_name = ''Fac'', ch_units = ''Hz'', ch_value = ''230'', ch_numericValue = Finite 230\<rparr>]"
  have cs: "GetChannelHandlesEx flaky 7 500 SPOTCHANNELS (world (ready 0)) = ([10, 11, 12], 0)"
    by (simp add: flaky_def demo_def ready_def)
  have rs: "readings flaky 7 [10, 11, 12] (uninit flaky) 0 = (?rs, 3)"
    by (simp add: read_channel_def flaky_def demo_def)
  have j: "(1::nat) < length [10, 11, 12 :: dword]" by simp
  have others: "\<forall>i<length [10, 11, 12 :: dword]. i \<noteq> 1 \<longrightarrow> (\<exists>d. ?rs ! i = Read d)"
  proof (intro allI impI)
    fix i :: nat
    assume "i < length [10, 11, 12 :: dword]" and "i \<noteq> 1"
    then have "i = 0 \<or> i = 2" by auto
    then show "\<exists>d. ?rs ! i = Read d" by auto
  qed
  have fails: "?rs ! 1 = NameFailed \<or> (\<exists>n. ?rs ! 1 = ValueFailed n)"
    by simp
  have run: "fetch_channel_data flaky 7 (ready 0)
       = ([\<lparr>ch_name = ''Pac'', ch_units = ''W'', ch_value = ''230'', ch_numericValue = Finite 230\<rparr>,
           \<lparr>ch_name = ''Fac'', ch_units = ''Hz'', ch_value = ''230'', ch_numericValue = Finite 230\<rparr>],
          (ready 0)\<lparr>world := 3,
                    calls := [Call_GetChannelHandlesEx 7 500 SPOTCHANNELS,
                              Call_GetChannelName 10, Call_GetChannelUnit 10, Call_GetChannelValue 10 7 5,
                              Call_GetChannelName 11, Call_GetChannelUnit 11, Call_GetChannelValue 11 7 5,
                              Call_GetChannelName 12, Call_GetChannelUnit 12,
                              Call_GetChannelValue 12 7 5]\<rparr>)"
    by (simp add: fetch_channel_data_def native_eq debug_def flaky_def demo_def ready_def)
  note t = fetch_skips_failed_channel [OF cs rs j others fails run, of "Finite 7"]
  have i: "initialized (ready 0)"
    by (simp add: ready_def)
  have data: "fst (GetDeviceData flaky [JsNumber (Finite 7)] (ready 0))
       = Inr (JsObject
           [(''timestamp'', JsString []),
            (''Pac'', JsObject [(''value'', JsString ''230''), (''units'', JsString ''W''),
                                (''numericValue'', JsNumber (Finite 230))]),
            (''Fac'', JsObject [(''value'', JsString ''230''), (''units'', JsString ''Hz''),
                                (''numericValue'', JsNumber (Finite 230))])])"
    using i by (simp add: GetDeviceData_def run)
  have absent: "''Uac'' \<notin> set (map ch_name (fst (fetch_channel_data flaky 7 (ready 0))))"
    using t by (simp add: run)
  show ?thesis
    using cs rs run absent data by simp
qed

section \<open>Looking a channel up by name\<close>

text \<open>
  C7. \<^verbatim>\<open>find_channel_handle\<close> enumerates the channels of the device with
  \<^verbatim>\<open>ALLCHANNELS\<close>. Let \<open>cs\<close> be the handles enumerated, and let the name read of each
  channel \<open>c\<close> of \<open>cs\<close> have one outcome \<open>nm c\<close>, a status and a text, whenever it is
  made. Then the result is the first handle of \<open>cs\<close> whose name read answers \<^verbatim>\<open>YE_OK\<close>
  with a text equal to the requested name, byte for byte, and 0 when there is none. The
  names are read in the order enumerated up to that handle. A result other than 0 is
  therefore an enumerated handle whose name is the requested one: a name that differs
  in case or is only a part of the requested one gives no handle.
\<close>

theorem find_channel_handle_exact_match:
  assumes "fst (GetChannelHandlesEx k device_handle 500 ALLCHANNELS (world s)) = cs"
    and "\<forall>c\<in>set cs. \<forall>w. fst (GetChannelName k c w) = nm c"
  shows "fst (find_channel_handle k device_handle channel_name s)
           = (case List.find (\<lambda>c. nm c = (YE_OK k, channel_name)) cs of None \<Rightarrow> 0 | Some c \<Rightarrow> c)
       \<and> calls (snd (find_channel_handle k device_handle channel_name s))
           = calls s @ Call_GetChannelHandlesEx device_handle 500 ALLCHANNELS
               # map Call_GetChannelName
                   (takeWhile (\<lambda>c. nm c \<noteq> (YE_OK k, channel_name)) cs
                    @ (case List.find (\<lambda>c. nm c = (YE_OK k, channel_name)) cs of
                         None \<Rightarrow> [] | Some c \<Rightarrow> [c]))
       \<and> (fst (find_channel_handle k device_handle channel_name s) \<noteq> 0 \<longrightarrow>
            fst (find_channel_handle k device_handle channel_name s) \<in> set cs
            \<and> nm (fst (find_channel_handle k device_handle channel_name s)) = (YE_OK k, channel_name))
       \<and> ((\<forall>c\<in>set cs. nm c \<noteq> (YE_OK k, channel_name)) \<longrightarrow>
            fst (find_channel_handle k device_handle channel_name s) = 0)"
proof -
  let ?P = "\<lambda>c. nm c = (YE_OK k, channel_name)"
  let ?r = "case List.find ?P cs of None \<Rightarrow> 0 | Some c \<Rightarrow> c"
  have res: "fst (find_channel_handle k device_handle channel_name s) = ?r"
  proof (cases "cs = []")
    case True
    then show ?thesis
      using assms(1) by (simp add: find_channel_handle_eq)
  next
    case False
    then show ?thesis
      using assms(1) find_loop_result [OF assms(2), of channel_name]
      by (simp add: find_channel_handle_eq)
  qed
  have cl: "calls (snd (find_channel_handle k device_handle channel_name s))
           = calls s @ Call_GetChannelHandlesEx device_handle 500 ALLCHANNELS
               # map Call_GetChannelName
                   (takeWhile (\<lambda>c. nm c \<noteq> (YE_OK k, channel_name)) cs
                    @ (case List.find ?P cs of None \<Rightarrow> [] | Some c \<Rightarrow> [c]))"
  proof (cases "cs = []")
    case True
    then show ?thesis
      using assms(1) by (simp add: find_channel_handle_eq debug_fields)
  next
    case False
    then show ?thesis
      using assms(1) find_loop_calls [OF assms(2), of channel_name]
      by (simp add: find_channel_handle_eq)
  qed
  have found: "?r \<noteq> 0 \<longrightarrow> ?r \<in> set cs \<and> nm ?r = (YE_OK k, channel_name)"
    by (auto split: option.splits simp add: find_Some_iff)
  have none: "(\<forall>c\<in>set cs. nm c \<noteq> (YE_OK k, channel_name)) \<longrightarrow> ?r = 0"
    by (auto split: option.splits simp add: find_Some_iff)
  show ?thesis
    using res cl found none by simp
qed

theorem find_channel_handle_exact_match_witness:
  "fst (GetChannelHandlesEx demo 7 500 ALLCHANNELS (world (ready 0))) = [10, 11, 12, 20]
   \<and> (\<forall>w. fst (GetChannelName demo 10 w) = (YE_OK demo, ''Pac''))
   \<and> (\<forall>w. fst (GetChannelName demo 11 w) = (YE_OK demo, ''Uac''))
   \<and> (\<forall>w. fst (GetChannelName demo 12 w) = (YE_OK demo, ''Fac''))
   \<and> (\<forall>w. fst (GetChannelName demo 20 w) = (YE_OK demo, ''Plimit''))
   \<and> fst (find_channel_handle demo 7 ''Plimit'' (ready 0)) = 20
   \<and> fst (find_channel_handle demo 7 ''plimit'' (ready 0)) = 0
   \<and> fst (find_channel_handle demo 7 ''Plim'' (ready 0)) = 0"
  using find_channel_handle_exact_match [of demo 7 "ready 0" "[10, 11, 12, 20]"
      "\<lambda>c. fst (GetChannelName demo c 0)" "''Plimit''"]
    find_channel_handle_exact_match [of demo 7 "ready 0" "[10, 11, 12, 20]"
      "\<lambda>c. fst (GetChannelName demo c 0)" "''plimit''"]
    find_channel_handle_exact_match [of demo 7 "ready 0" "[10, 11, 12, 20]"
      "\<lambda>c. fst (GetChannelName demo c 0)" "''Plim''"]
  by (simp add: demo_fields ready_def)

section \<open>The status of a write\<close>

text \<open>
  C8. When \<^verbatim>\<open>setChannelValue\<close> goes on to the write (the range read did not answer
  \<^verbatim>\<open>YE_OK\<close>, or \<open>v\<close> is neither below the minimum nor above the maximum), the write is
  called after the range read, and the returned object has the status of the write as
  its \<open>code\<close> and \<open>success\<close> true exactly for the status \<^verbatim>\<open>YE_OK\<close>. A successful write
  has no \<open>error\<close>; a failed one has the message of its status: one message for each of
  invalid handle, shutdown, timeout, value not valid and no access rights, and
  "Unknown error" for every other status.
\<close>

theorem write_status_reported:
  assumes "initialized s"
    and "find_channel_handle k (Int32Value dev) channel_name s = (channel_handle, s1)"
    and "channel_handle \<noteq> 0"
    and "GetChannelValRange k channel_handle (world s1) = ((range_result, min_value, max_value), w2)"
    and "range_result \<noteq> YE_OK k \<or> \<not> (dless v min_value \<or> dless max_value v)"
    and "yasdi_SetChannelValue k channel_handle (Int32Value dev) v w2 = (set_result, w3)"
    and "SetChannelValue k [JsNumber dev, JsString channel_name, JsNumber v] s = (r, s')"
    and "labels_distinct k"
  shows "calls s' = calls s1 @ [Call_GetChannelValRange channel_handle,
                               Call_SetChannelValue channel_handle (Int32Value dev) v]
       \<and> (\<exists>ps. r = Inr (JsObject ps)
             \<and> map_of ps ''code'' = Some (number_of_int set_result)
             \<and> map_of ps ''success'' = Some (JsBoolean (set_result = YE_OK k))
             \<and> (set_result = YE_OK k \<longrightarrow> map_of ps ''error'' = None)
             \<and> (set_result \<noteq> YE_OK k \<longrightarrow>
                  (set_result = INVALID_HANDLE k \<longrightarrow>
                     map_of ps ''error'' = Some (JsString ''Invalid channel handle''))
                \<and> (set_result = YE_SHUTDOWN k \<longrightarrow>
                     map_of ps ''error'' = Some (JsString ''YASDI is in shutdown mode''))
                \<and> (set_result = YE_TIMEOUT k \<longrightarrow>
                     map_of ps ''error'' = Some (JsString ''Device did not respond (timeout)''))
                \<and> (set_result = YE_VALUE_NOT_VALID k \<longrightarrow>
                     map_of ps ''error'' = Some (JsString ''Channel value not within valid range''))
                \<and> (set_result = YE_NO_ACCESS_RIGHTS k \<longrightarrow>
                     map_of ps ''error'' = Some (JsString ''Not enough access rights to write to channel''))
                \<and> (set_result \<notin> {INVALID_HANDLE k, YE_SHUTDOWN k, YE_TIMEOUT k,
                                    YE_VALUE_NOT_VALID k, YE_NO_ACCESS_RIGHTS k} \<longrightarrow>
                     map_of ps ''error'' = Some (JsString ''Unknown error''))))"
proof -
  let ?ps = "[(''success'', JsBoolean (set_result = YE_OK k)), (''code'', number_of_int set_result)]
             @ (if set_result \<noteq> YE_OK k
                then [(''error'', JsString (error_message k set_result))] else [])"
  have r: "r = Inr (JsObject ?ps)"
    using SetChannelValue_write(1) [OF assms(1-6)] assms(7) by simp
  have c: "calls s' = calls s1 @ [Call_GetChannelValRange channel_handle,
                                  Call_SetChannelValue channel_handle (Int32Value dev) v]"
    using SetChannelValue_write(2) [OF assms(1-6)] assms(7) by simp
  have code: "map_of ?ps ''code'' = Some (number_of_int set_result)" by simp
  have success: "map_of ?ps ''success'' = Some (JsBoolean (set_result = YE_OK k))" by simp
  have ok: "set_result = YE_OK k \<longrightarrow> map_of ?ps ''error'' = None" by simp
  have err: "set_result \<noteq> YE_OK k \<longrightarrow>
               map_of ?ps ''error'' = Some (JsString (error_message k set_result))" by simp
  note m = error_message_cases [OF assms(8), of set_result]
  have msgs: "set_result \<noteq> YE_OK k \<longrightarrow>
                  (set_result = INVALID_HANDLE k \<longrightarrow>
                     map_of ?ps ''error'' = Some (JsString ''Invalid channel handle''))
                \<and> (set_result = YE_SHUTDOWN k \<longrightarrow>
                     map_of ?ps ''error'' = Some (JsString ''YASDI is in shutdown mode''))
                \<and> (set_result = YE_TIMEOUT k \<longrightarrow>
                     map_of ?ps ''error'' = Some (JsString ''Device did not respond (timeout)''))
                \<and> (set_result = YE_VALUE_NOT_VALID k \<longrightarrow>
                     map_of ?ps ''error'' = Some (JsString ''Channel value not within valid range''))
                \<and> (set_result = YE_NO_ACCESS_RIGHTS k \<longrightarrow>
                     map_of ?ps ''error'' = Some (JsString ''Not enough access rights to write to channel''))
                \<and> (set_result \<notin> {INVALID_HANDLE k, YE_SHUTDOWN k, YE_TIMEOUT k,
                                    YE_VALUE_NOT_VALID k, YE_NO_ACCESS_RIGHTS k} \<longrightarrow>
                     map_of ?ps ''error'' = Some (JsString ''Unknown error''))"
    using err m by metis
  show ?thesis
    apply (rule conjI [OF c])
    apply (rule exI [of _ ?ps])
    using r code success ok msgs by blast
qed

theorem write_status_reported_witness:
  "labels_distinct demo \<and> initialized (ready (-3))
   \<and> fst (find_channel_handle demo (Int32Value (Finite 7)) ''Plimit'' (ready (-3))) = 20
   \<and> \<not> (dless (Finite 100) (Finite 0) \<or> dless (Finite 2500) (Finite 100))
   \<and> yasdi_SetChannelValue demo 20 7 (Finite 100) (-3) = (YE_TIMEOUT demo, -3)
   \<and> fst (SetChannelValue demo [JsNumber (Finite 7), JsString ''Plimit'', JsNumber (Finite 100)] (ready (-3)))
      = Inr (JsObject [(''success'', JsBoolean False), (''code'', JsNumber (Finite (-3))),
                        (''error'', JsString ''Device did not respond (timeout)'')])
   \<and> fst (SetChannelValue demo [JsNumber (Finite 7), JsString ''Plimit'', JsNumber (Finite 100)] (ready 0))
      = Inr (JsObject [(''success'', JsBoolean True), (''code'', JsNumber (Finite 0))])"
  using write_status_reported [of "ready (-3)" demo "Finite 7" "''Plimit''" 20
      "snd (find_channel_handle demo 7 ''Plimit'' (ready (-3)))" 0 "Finite 0" "Finite 2500" "-3"
      "Finite 100" "-3" "-3"
      "fst (SetChannelValue demo [JsNumber (Finite 7), JsString ''Plimit'', JsNumber (Finite 100)] (ready (-3)))"
      "snd (SetChannelValue demo [JsNumber (Finite 7), JsString ''Plimit'', JsNumber (Finite 100)] (ready (-3)))"]
  by (simp add: labels_distinct_demo find_channel_handle_def demo_fields SetChannelValue_def native_eq
      debug_def number_of_int_def ready_def error_message_def)

section \<open>Device names\<close>

text \<open>
  C9. The name that the device listing gives to a device \<open>h\<close>, whose name is read as
  \<open>raw\<close>, is \<open>raw\<close> with every space replaced by an underscore: it has the length of
  \<open>raw\<close>, an underscore at each position where \<open>raw\<close> has a space, and the character of
  \<open>raw\<close> at every other position. It is a function of \<open>raw\<close> alone. When \<open>raw\<close> has
  no underscore of its own, the underscores of the result are at the positions of the
  spaces of \<open>raw\<close> and nowhere else.
\<close>

theorem device_name_normalized:
  assumes "fst (GetDeviceHandles k 50 (world s)) = hs"
    and "h \<in> set hs"
    and "\<forall>w buf. snd (fst (GetDeviceName k h buf w)) = raw"
  shows "map_of (fst (get_device_map k s)) h = Some (replace_spaces raw)
       \<and> replace_spaces raw = map (\<lambda>c. if c = CHR '' '' then CHR ''_'' else c) raw
       \<and> length (replace_spaces raw) = length raw
       \<and> (\<forall>i<length raw. replace_spaces raw ! i
             = (if raw ! i = CHR '' '' then CHR ''_'' else raw ! i))
       \<and> (CHR ''_'' \<notin> set raw \<longrightarrow>
            (\<forall>i<length raw. (replace_spaces raw ! i = CHR ''_'') = (raw ! i = CHR '' '')))"
proof -
  have "hs \<noteq> []" using assms(2) by auto
  then have listed: "map_of (fst (get_device_map k s)) h = Some (replace_spaces raw)"
    using assms(1,2) device_loop_map_of [OF assms(3), of hs]
    by (simp add: get_device_map_def native_eq split_beta)
  have as_map: "replace_spaces raw = map (\<lambda>c. if c = CHR '' '' then CHR ''_'' else c) raw"
    by (rule replace_spaces_map)
  have len: "length (replace_spaces raw) = length raw"
    by (simp add: replace_spaces_map)
  have pos: "\<forall>i<length raw. replace_spaces raw ! i
             = (if raw ! i = CHR '' '' then CHR ''_'' else raw ! i)"
    by (simp add: replace_spaces_map)
  have only: "CHR ''_'' \<notin> set raw \<longrightarrow>
            (\<forall>i<length raw. (replace_spaces raw ! i = CHR ''_'') = (raw ! i = CHR '' ''))"
    using no_underscore_positions by blast
  show ?thesis
    by (intro conjI) (rule listed as_map len pos only)+
qed

theorem device_name_normalized_witness:
  "fst (GetDeviceHandles demo 50 (world (ready 0))) = [7]
   \<and> (\<forall>w buf. snd (fst (GetDeviceName demo 7 buf w)) = ''SB 2500 SN 1234'')
   \<and> map_of (fst (get_device_map demo (ready 0))) 7 = Some ''SB_2500_SN_1234''
   \<and> replace_spaces ''SB 2500 SN 1234'' = ''SB_2500_SN_1234''
   \<and> fst (GetDevices demo [] (ready 0))
       = Inr (JsArray [JsObject [(''handle'', JsNumber (Finite 7)),
                                 (''name'', JsString ''SB_2500_SN_1234'')]])"
  using device_name_normalized [of demo "ready 0" "[7]" 7 "''SB 2500 SN 1234''"]
  by (simp add: demo_def ready_def GetDevices_def get_device_map_def native_eq debug_def
      replace_spaces_map number_of_dword_def)

section \<open>A channel that is not found\<close>

text \<open>
  C10. \<^verbatim>\<open>find_channel_handle\<close> returns 0 when the enumeration stores no handle, and
  also when it stores handles of which no name read answers \<^verbatim>\<open>YE_OK\<close> with the
  requested name. In both situations \<^verbatim>\<open>getChannelInfo\<close> and \<^verbatim>\<open>setChannelValue\<close> throw the
  same error "Channel not found".
\<close>

theorem channel_not_found_ambiguous:
  assumes "initialized s"
    and "fst (GetChannelHandlesEx k (Int32Value dev) 500 ALLCHANNELS (world s)) = cs"
    and "cs = [] \<or> (cs \<noteq> [] \<and> (\<forall>c\<in>set cs. \<forall>w. fst (GetChannelName k c w) \<noteq> (YE_OK k, channel_name)))"
  shows "fst (find_channel_handle k (Int32Value dev) channel_name s) = 0
       \<and> fst (GetChannelInfo k [JsNumber dev, JsString channel_name] s)
           = Inl (Error ''Channel not found'')
       \<and> fst (SetChannelValue k [JsNumber dev, JsString channel_name, JsNumber v] s)
           = Inl (Error ''Channel not found'')"
proof -
  have z: "fst (find_channel_handle k (Int32Value dev) channel_name s) = 0"
  proof (cases "cs = []")
    case True
    then show ?thesis
      using assms(2) by (simp add: find_channel_handle_eq)
  next
    case False
    then have "\<forall>c\<in>set cs. \<forall>w. fst (GetChannelName k c w) \<noteq> (YE_OK k, channel_name)"
      using assms(3) by simp
    then show ?thesis
      using False assms(2) find_loop_no_match [of cs k channel_name]
      by (simp add: find_channel_handle_eq)
  qed
  have i: "fst (GetChannelInfo k [JsNumber dev, JsString channel_name] s)
             = Inl (Error ''Channel not found'')"
    using assms(1) z by (simp add: GetChannelInfo_def split_beta)
  have w: "fst (SetChannelValue k [JsNumber dev, JsString channel_name, JsNumber v] s)
             = Inl (Error ''Channel not found'')"
    using assms(1) z by (simp add: SetChannelValue_def split_beta)
  show ?thesis
    using z i w by simp
qed

theorem channel_not_found_ambiguous_witness:
  "initialized (ready 0)
   \<and> fst (GetChannelHandlesEx demo (Int32Value (Finite 8)) 500 ALLCHANNELS (world (ready 0))) = []
   \<and> fst (GetChannelInfo demo [JsNumber (Finite 8), JsString ''Plimit''] (ready 0))
       = Inl (Error ''Channel not found'')
   \<and> fst (GetChannelHandlesEx demo (Int32Value (Finite 7)) 500 ALLCHANNELS (world (ready 0)))
       = [10, 11, 12, 20]
   \<and> (\<forall>w. fst (GetChannelName demo 10 w) \<noteq> (YE_OK demo, ''Qlimit''))
   \<and> (\<forall>w. fst (GetChannelName demo 11 w) \<noteq> (YE_OK demo, ''Qlimit''))
   \<and> (\<forall>w. fst (GetChannelName demo 12 w) \<noteq> (YE_OK demo, ''Qlimit''))
   \<and> (\<forall>w. fst (GetChannelName demo 20 w) \<noteq> (YE_OK demo, ''Qlimit''))
   \<and> fst (GetChannelInfo demo [JsNumber (Finite 7), JsString ''Qlimit''] (ready 0))
       = Inl (Error ''Channel not found'')
   \<and> fst (SetChannelValue demo [JsNumber (Finite 7), JsString ''Qlimit'', JsNumber (Finite 1)] (ready 0))
       = Inl (Error ''Channel not found'')"
  using channel_not_found_ambiguous [of "ready 0" demo "Finite 8" "[]" "''Plimit''" "Finite 1"]
    channel_not_found_ambiguous [of "ready 0" demo "Finite 7" "[10, 11, 12, 20]" "''Qlimit''" "Finite 1"]
  by (simp add: demo_fields ready_def)

end
